theory Spec2Isabelle
  imports Complex_Main
begin

section \<open>JavaScript values\<close>

text \<open>
  A number is a finite real, an infinity or NaN. Rounding to a double is the runtime's
  (see \<open>runtime\<close> below); the two zeros are one.
\<close>

datatype number = Finite real | PosInfinity | NegInfinity | NaN

text \<open>\<open>a < b\<close> on numbers: false as soon as one of them is NaN.\<close>

fun num_less :: "number \<Rightarrow> number \<Rightarrow> bool" where
  "num_less (Finite a) (Finite b) = (a < b)"
| "num_less (Finite a) PosInfinity = True"
| "num_less NegInfinity (Finite b) = True"
| "num_less NegInfinity PosInfinity = True"
| "num_less a b = False"

text \<open>\<open>Math.min\<close> and \<open>Math.max\<close> of two numbers: NaN when one of them is NaN.\<close>

definition Math_min :: "number \<Rightarrow> number \<Rightarrow> number" where
  "Math_min a b = (if a = NaN \<or> b = NaN then NaN else if num_less b a then b else a)"

definition Math_max :: "number \<Rightarrow> number \<Rightarrow> number" where
  "Math_max a b = (if a = NaN \<or> b = NaN then NaN else if num_less a b then b else a)"

text \<open>Sum and difference of numbers, exact on the finite ones.\<close>

fun num_plus :: "number \<Rightarrow> number \<Rightarrow> number" where
  "num_plus (Finite a) (Finite b) = Finite (a + b)"
| "num_plus NaN b = NaN"
| "num_plus a NaN = NaN"
| "num_plus PosInfinity NegInfinity = NaN"
| "num_plus NegInfinity PosInfinity = NaN"
| "num_plus PosInfinity b = PosInfinity"
| "num_plus a PosInfinity = PosInfinity"
| "num_plus NegInfinity b = NegInfinity"
| "num_plus a NegInfinity = NegInfinity"

fun num_neg :: "number \<Rightarrow> number" where
  "num_neg (Finite a) = Finite (- a)"
| "num_neg PosInfinity = NegInfinity"
| "num_neg NegInfinity = PosInfinity"
| "num_neg NaN = NaN"

definition num_minus :: "number \<Rightarrow> number \<Rightarrow> number" where
  "num_minus a b = num_plus a (num_neg b)"

text \<open>
  Animation documents are trees of data. An object is the list of its own properties in
  insertion order.
\<close>

datatype jsval =
    JUndefined
  | JNull
  | JBool bool
  | JNum number
  | JStr string
  | JArr "jsval list"
  | JObj "(string \<times> jsval) list"

text \<open>
  What a property read can give: data, or an object of the runtime, by its name, such as the
  function \<open>toString\<close> that every object inherits.
\<close>

datatype ref = Data jsval | Builtin string

datatype error =
    TypeError
  | RangeError
  | UnsupportedStateFlag string
  | AlreadyConnected
  | NotConnected
  | PlayerNotInitialized

datatype binop = Plus | Times | Divide

text \<open>
  The language runtime, taken as a parameter. \<open>inherited v k\<close> is the member \<open>k\<close> that
  a value finds on its prototype chain, and any member of an object of the runtime;
  \<open>None\<close> when there is none. \<open>builtin_object b\<close> says that \<open>typeof b\<close> is
  \<open>"object"\<close> rather than \<open>"function"\<close>; \<open>builtin_accepts b k\<close> that the assignment
  \<open>b[k] = value\<close> does not raise. \<open>arith\<close> is the operators \<open>+\<close>, \<open>*\<close> and \<open>/\<close>,
  with their coercions and their rounding; \<open>toNumber\<close> is \<open>ToNumber\<close> on strings,
  arrays and objects; \<open>toLowerCase\<close> is the string method.
\<close>

record runtime =
  inherited :: "ref \<Rightarrow> string \<Rightarrow> ref option"
  builtin_object :: "string \<Rightarrow> bool"
  builtin_accepts :: "string \<Rightarrow> string \<Rightarrow> bool"
  arith :: "binop \<Rightarrow> ref \<Rightarrow> ref \<Rightarrow> jsval"
  toNumber :: "jsval \<Rightarrow> number"
  toLowerCase :: "string \<Rightarrow> string"

text \<open>\<open>s.split(sep)\<close> for a one-character separator: never empty, the empty string gives
  one empty part.\<close>

fun str_split :: "char \<Rightarrow> string \<Rightarrow> string list" where
  "str_split sep [] = [[]]"
| "str_split sep (c # cs) =
     (if c = sep then [] # str_split sep cs
      else (case str_split sep cs of [] \<Rightarrow> [[c]] | p # ps \<Rightarrow> (c # p) # ps))"

text \<open>Truthiness of a value, as \<open>if (v)\<close>, \<open>v && ...\<close> and \<open>!v\<close> read it.\<close>

fun truthy :: "jsval \<Rightarrow> bool" where
  "truthy JUndefined = False"
| "truthy JNull = False"
| "truthy (JBool b) = b"
| "truthy (JNum n) = (n \<noteq> Finite 0 \<and> n \<noteq> NaN)"
| "truthy (JStr s) = (s \<noteq> [])"
| "truthy (JArr xs) = True"
| "truthy (JObj kvs) = True"

text \<open>\<open>ToNumber\<close>: fixed on the primitives that are not strings, the runtime's otherwise.\<close>

fun js_toNumber :: "runtime \<Rightarrow> jsval \<Rightarrow> number" where
  "js_toNumber rt (JNum n) = n"
| "js_toNumber rt JUndefined = NaN"
| "js_toNumber rt JNull = Finite 0"
| "js_toNumber rt (JBool b) = Finite (if b then 1 else 0)"
| "js_toNumber rt v = toNumber rt v"

subsection \<open>Property keys\<close>

definition digit_value :: "char \<Rightarrow> nat option" where
  "digit_value =
     map_of [(CHR ''0'', 0), (CHR ''1'', 1), (CHR ''2'', 2), (CHR ''3'', 3), (CHR ''4'', 4),
             (CHR ''5'', 5), (CHR ''6'', 6), (CHR ''7'', 7), (CHR ''8'', 8), (CHR ''9'', 9)]"

fun decimal :: "nat \<Rightarrow> string \<Rightarrow> nat option" where
  "decimal n [] = Some n"
| "decimal n (c # cs) =
     (case digit_value c of None \<Rightarrow> None | Some d \<Rightarrow> decimal (10 * n + d) cs)"

text \<open>A key is an array index when it is the canonical decimal numeral of a number below
  \<open>2^32 - 1\<close>.\<close>

definition array_index :: "string \<Rightarrow> nat option" where
  "array_index k =
     (if k = [] \<or> (hd k = CHR ''0'' \<and> k \<noteq> ''0'') then None
      else (case decimal 0 k of
              None \<Rightarrow> None
            | Some i \<Rightarrow> if i < 4294967295 then Some i else None))"

text \<open>
  The own property \<open>k\<close> of a value: a member of an object, an element or the length of
  an array, a character or the length of a string; \<open>None\<close> when it has none.
\<close>

fun own_property :: "jsval \<Rightarrow> string \<Rightarrow> jsval option" where
  "own_property (JObj kvs) k = map_of kvs k"
| "own_property (JArr xs) k =
     (if k = ''length'' then Some (JNum (Finite (real (length xs))))
      else (case array_index k of
              None \<Rightarrow> None
            | Some i \<Rightarrow> if i < length xs then Some (xs ! i) else None))"
| "own_property (JStr s) k =
     (if k = ''length'' then Some (JNum (Finite (real (length s))))
      else (case array_index k of
              None \<Rightarrow> None
            | Some i \<Rightarrow> if i < length s then Some (JStr [s ! i]) else None))"
| "own_property v k = None"

text \<open>The property \<open>k\<close> of a value, own or inherited.\<close>

fun js_property :: "runtime \<Rightarrow> ref \<Rightarrow> string \<Rightarrow> ref option" where
  "js_property rt (Data d) k =
     (case own_property d k of Some x \<Rightarrow> Some (Data x) | None \<Rightarrow> inherited rt (Data d) k)"
| "js_property rt (Builtin b) k = inherited rt (Builtin b) k"

section \<open>Utilities (utils)\<close>

text \<open>\<open>isNil(value)\<close>: \<open>value === null || value === undefined\<close>.\<close>

fun isNil :: "ref \<Rightarrow> bool" where
  "isNil (Data d) = (d = JNull \<or> d = JUndefined)"
| "isNil (Builtin b) = False"




text \<open>\<open>current[key]\<close> raises TypeError on \<open>null\<close> and \<open>undefined\<close>; a property that
  is neither own nor inherited reads as \<open>undefined\<close>.\<close>

definition js_member :: "runtime \<Rightarrow> ref \<Rightarrow> string \<Rightarrow> error + ref" where
  "js_member rt v k =
     (if isNil v then Inl TypeError
      else Inr (case js_property rt v k of None \<Rightarrow> Data JUndefined | Some x \<Rightarrow> x))"

text \<open>A path is a dot-separated string or an array of keys.\<close>

datatype path = PathString string | PathArray "string list"

text \<open>\<open>Array.isArray(path) ? path : path.split(".")\<close>\<close>

fun newPath :: "path \<Rightarrow> string list" where
  "newPath (PathArray ks) = ks"
| "newPath (PathString s) = str_split (CHR ''.'') s"







text \<open>
  \<open>current[key] = value\<close> on data, giving the value of \<open>current\<close> after it. A member of an
  object is replaced in place or added at the end; \<open>__proto__\<close>, unless it is an own member,
  goes to the inherited accessor and leaves the members as they are. On an array,
  \<open>length\<close> cuts or pads the elements and raises RangeError on a value that is no length, an
  index writes that element, padding with \<open>undefined\<close> where the source leaves holes, and
  any other key is a named property, which is no element. Module code is strict: assigning on
  a primitive raises, as on \<open>null\<close> and \<open>undefined\<close>.
\<close>

fun upd_member :: "string \<Rightarrow> jsval \<Rightarrow> (string \<times> jsval) list \<Rightarrow> (string \<times> jsval) list" where
  "upd_member k v [] = [(k, v)]"
| "upd_member k v ((k', v') # kvs) =
     (if k' = k then (k, v) # kvs else (k', v') # upd_member k v kvs)"

definition array_length :: "number \<Rightarrow> nat option" where
  "array_length n =
     (case n of
        Finite r \<Rightarrow>
          if 0 \<le> r \<and> r < 4294967296 \<and> r = of_int \<lfloor>r\<rfloor> then Some (nat \<lfloor>r\<rfloor>) else None
      | _ \<Rightarrow> None)"

fun js_assign :: "runtime \<Rightarrow> jsval \<Rightarrow> string \<Rightarrow> jsval \<Rightarrow> error + jsval" where
  "js_assign rt (JObj kvs) k v =
     (if k = ''__proto__'' \<and> map_of kvs k = None then Inr (JObj kvs)
      else Inr (JObj (upd_member k v kvs)))"
| "js_assign rt (JArr xs) k v =
     (if k = ''length'' then
        (case array_length (js_toNumber rt v) of
           None \<Rightarrow> Inl RangeError
         | Some n \<Rightarrow> Inr (JArr (take n xs @ replicate (n - length xs) JUndefined)))
      else
        (case array_index k of
           None \<Rightarrow> Inr (JArr xs)
         | Some i \<Rightarrow>
             if i < length xs then Inr (JArr (xs[i := v]))
             else Inr (JArr (xs @ replicate (i - length xs) JUndefined @ [v]))))"
| "js_assign rt cur k v = Inl TypeError"

text \<open>The value \<open>current\<close> is once its own member \<open>k\<close>, which the walk went through,
  has been written in.\<close>

fun replace_own :: "jsval \<Rightarrow> string \<Rightarrow> jsval \<Rightarrow> jsval" where
  "replace_own (JObj kvs) k child = JObj (upd_member k child kvs)"
| "replace_own (JArr xs) k child =
     (case array_index k of None \<Rightarrow> JArr xs | Some i \<Rightarrow> JArr (xs[i := child]))"
| "replace_own cur k child = cur"

text \<open>
  The loop of \<open>set\<close>: the source walks to the parent with unguarded reads and assigns the
  last key in place; here the value of \<open>current\<close> after the write is returned. Where the walk
  leaves the data through an inherited member, the write lands outside the data, which stays
  as it is. A key that is neither own nor inherited reads as \<open>undefined\<close>, and the next step
  raises. With no key nothing is written.
\<close>

fun set_loop :: "runtime \<Rightarrow> ref \<Rightarrow> string list \<Rightarrow> jsval \<Rightarrow> error + ref" where
  "set_loop rt current [] v = Inr current"
| "set_loop rt (Data d) [k] v =
     (case js_assign rt d k v of Inl e \<Rightarrow> Inl e | Inr d' \<Rightarrow> Inr (Data d'))"
| "set_loop rt (Builtin b) [k] v =
     (if builtin_accepts rt b k then Inr (Builtin b) else Inl TypeError)"
| "set_loop rt (Data d) (k # k' # ks) v =
     (if isNil (Data d) then Inl TypeError
      else
        (case own_property d k of
           Some child \<Rightarrow>
             (case set_loop rt (Data child) (k' # ks) v of
                Inl e \<Rightarrow> Inl e
              | Inr (Data child') \<Rightarrow> Inr (Data (replace_own d k child'))
              | Inr (Builtin b) \<Rightarrow> Inr (Data d))
         | None \<Rightarrow>
             (case inherited rt (Data d) k of
                None \<Rightarrow> Inl TypeError
              | Some member \<Rightarrow>
                  (case set_loop rt member (k' # ks) v of
                     Inl e \<Rightarrow> Inl e
                   | Inr member' \<Rightarrow> Inr (Data d)))))"
| "set_loop rt (Builtin b) (k # k' # ks) v =
     (case inherited rt (Builtin b) k of
        None \<Rightarrow> Inl TypeError
      | Some member \<Rightarrow>
          (case set_loop rt member (k' # ks) v of
             Inl e \<Rightarrow> Inl e
           | Inr member' \<Rightarrow> Inr (Builtin b)))"

text \<open>\<open>set(object, path, value)\<close> on a document.\<close>

definition set_path :: "runtime \<Rightarrow> jsval \<Rightarrow> path \<Rightarrow> jsval \<Rightarrow> error + jsval" where
  "set_path rt object p v =
     (case set_loop rt (Data object) (newPath p) v of
        Inl e \<Rightarrow> Inl e
      | Inr (Data d) \<Rightarrow> Inr d
      | Inr (Builtin b) \<Rightarrow> Inr object)"

section \<open>Interfaces\<close>

text \<open>A marker of the document: name \<open>cm\<close>, start time \<open>tm\<close>, duration \<open>dr\<close>.\<close>

record Marker =
  cm :: string
  tm :: real
  dr :: real

text \<open>\<open>LottieData\<close>: the document as a tree, and its top-level \<open>markers\<close> member
  (\<open>None\<close> when the document has none).\<close>

record LottieData =
  markers :: "Marker list option"
  tree :: jsval

text \<open>\<open>IconState\<close>. The name is \<open>None\<close> (\<open>undefined\<close>) for a marker that
  consists of flags only.\<close>

record IconState =
  name :: "string option"
  time :: real
  duration :: real
  default :: bool
  params :: "string list"

record LottieProperty =
  prop_name :: string
  prop_path :: string
  prop_type :: string
  prop_value :: jsval

text \<open>
  \<open>IconProperties & LegacyIconProperties\<close>: an absent \<open>state\<close> or \<open>colors\<close> is
  \<open>None\<close>; an absent \<open>stroke\<close>, \<open>scale\<close>, \<open>axisX\<close> or \<open>axisY\<close> is
  \<open>JUndefined\<close>.
\<close>

record IconProperties =
  state :: "string option"
  colors :: "(string \<times> string) list option"
  stroke :: jsval
  scale :: jsval
  axisX :: jsval
  axisY :: jsval

text \<open>The transport fields of \<open>LottieAnimationInstance\<close>, and the frame range
  \<open>ip\<close>, \<open>op\<close> of the animation it was loaded with.\<close>

record LottieAnimationInstance =
  isLoaded :: bool
  isPaused :: bool
  currentFrame :: number
  firstFrame :: number
  totalFrames :: number
  playDirection :: real
  ip :: number
  op :: number

text \<open>The configuration handed to the renderer's \<open>loadAnimation\<close>, next to the constant
  \<open>DEFAULT_LOTTIE_WEB_OPTIONS\<close> (\<open>loop: false\<close>, \<open>autoplay: false\<close>).\<close>

record AnimationConfig =
  initialSegment :: "(real \<times> real) option"
  animationData :: jsval

text \<open>
  What the player imports and \<open>src/\<close> does not hold, taken as parameters: the property
  extractor and appliers of \<open>./lottie\<close>, \<open>parseStroke\<close> of \<open>./parsers\<close> and the
  renderer's \<open>loadAnimation\<close>; with them, the language runtime.
\<close>

record externals =
  js :: runtime
  extractLottieProperties :: "jsval \<Rightarrow> bool \<Rightarrow> LottieProperty list option"
  updateLottieProperties :: "jsval \<Rightarrow> LottieProperty list \<Rightarrow> jsval \<Rightarrow> error + jsval"
  updateInstanceProperties ::
    "LottieAnimationInstance \<Rightarrow> LottieProperty list \<Rightarrow> jsval \<Rightarrow> LottieAnimationInstance"
  resetInstanceProperties ::
    "LottieAnimationInstance \<Rightarrow> LottieProperty list \<Rightarrow> LottieAnimationInstance"
  parseStroke :: "jsval \<Rightarrow> jsval"
  loadAnimation :: "AnimationConfig \<Rightarrow> LottieAnimationInstance"

section \<open>The renderer's transport primitives\<close>

text \<open>
  Modelled from the spec: the renderer is an external collaborator, and only its type
  declaration is in \<open>src/\<close>. Its primitives follow the contract the specification
  consumes: \<open>play\<close> and \<open>pause\<close> clear and set the paused flag, \<open>goToAndStop\<close>
  moves to a frame of the current segment and stops there, \<open>setSegment\<close> adopts a
  segment, \<open>resetSegments\<close> returns to the loaded range, \<open>getDuration(true)\<close> is the
  length of the current segment in frames.
\<close>

definition inst_play :: "LottieAnimationInstance \<Rightarrow> LottieAnimationInstance" where
  "inst_play r = r\<lparr>isPaused := False\<rparr>"

definition inst_pause :: "LottieAnimationInstance \<Rightarrow> LottieAnimationInstance" where
  "inst_pause r = r\<lparr>isPaused := True\<rparr>"

definition inst_goToAndStop :: "number \<Rightarrow> LottieAnimationInstance \<Rightarrow> LottieAnimationInstance" where
  "inst_goToAndStop v r = inst_pause (r\<lparr>currentFrame := v\<rparr>)"

definition inst_setSegment ::
  "number \<Rightarrow> number \<Rightarrow> LottieAnimationInstance \<Rightarrow> LottieAnimationInstance" where
  "inst_setSegment init end r = r\<lparr>firstFrame := init, totalFrames := num_minus end init\<rparr>"

definition inst_resetSegments :: "LottieAnimationInstance \<Rightarrow> LottieAnimationInstance" where
  "inst_resetSegments r = r\<lparr>firstFrame := ip r, totalFrames := num_minus (op r) (ip r)\<rparr>"

definition inst_setDirection :: "real \<Rightarrow> LottieAnimationInstance \<Rightarrow> LottieAnimationInstance" where
  "inst_setDirection d r = r\<lparr>playDirection := d\<rparr>"

definition inst_getDuration_frames :: "LottieAnimationInstance \<Rightarrow> number" where
  "inst_getDuration_frames r = totalFrames r"

section \<open>The player\<close>

text \<open>
  The fields of \<open>Player\<close> that the modelled methods read or write; the field
  \<open>_state\<close> of the class is \<open>p_state\<close> here, and so on. Event handlers are caller
  code; the model is of a player with none registered.
\<close>

record Player =
  p_iconData :: jsval
  p_initialProperties :: IconProperties
  p_lottieInstance :: "LottieAnimationInstance option"
  p_ready :: bool
  p_direction :: real
  p_speed :: real
  p_lottieProperties :: "LottieProperty list option"
  p_state :: "IconState option"
  p_availableStates :: "IconState list"

definition SUPPORTED_STATE_FLAGS :: "string list" where
  "SUPPORTED_STATE_FLAGS = [''default'']"

text \<open>\<open>xs[0]\<close> of an array: \<open>None\<close> is \<open>undefined\<close>.\<close>

fun at0 :: "'a list \<Rightarrow> 'a option" where
  "at0 [] = None"
| "at0 (x # xs) = Some x"

text \<open>
  The flag loop of the constructor, on the parts still to read and the default flag so far:
  \<open>while (SUPPORTED_STATE_FLAGS.includes(parts[0])) { switch ... ; parts.shift(); }\<close>.
  It returns the flag and the remaining parts. With no part left \<open>parts[0]\<close> is
  \<open>undefined\<close>, which the list does not include.
\<close>

fun readFlags :: "string list \<Rightarrow> bool \<Rightarrow> error + (bool \<times> string list)" where
  "readFlags [] dflt = Inr (dflt, [])"
| "readFlags (part # parts) dflt =
     (if part \<in> set SUPPORTED_STATE_FLAGS then
        (if part = ''default'' then readFlags parts True
         else Inl (UnsupportedStateFlag part))
      else Inr (dflt, part # parts))"

text \<open>
  The callback of \<open>(data.markers || []).map(...)\<close>: it builds the state of one marker
  and, as a side effect, may assign \<open>this._state\<close>, which is threaded through here.
\<close>

definition parseMarker ::
  "string option \<Rightarrow> Marker \<Rightarrow> IconState option \<Rightarrow> error + (IconState \<times> IconState option)" where
  "parseMarker requested c selected =
     (case readFlags (str_split (CHR '':'') (cm c)) False of
        Inl e \<Rightarrow> Inl e
      | Inr (dflt, parts) \<Rightarrow>
          let newState = \<lparr>name = at0 parts, time = tm c, duration = dr c,
                           default = dflt, params = drop 1 parts\<rparr>
          in Inr (newState,
                  if name newState = requested then Some newState
                  else if default newState \<and> requested = None then Some newState
                  else selected))"

fun mapMarkers ::
  "string option \<Rightarrow> Marker list \<Rightarrow> IconState option \<Rightarrow> error + (IconState list \<times> IconState option)" where
  "mapMarkers requested [] selected = Inr ([], selected)"
| "mapMarkers requested (c # cs) selected =
     (case parseMarker requested c selected of
        Inl e \<Rightarrow> Inl e
      | Inr (newState, selected') \<Rightarrow>
          (case mapMarkers requested cs selected' of
             Inl e \<Rightarrow> Inl e
           | Inr (states, selected'') \<Rightarrow> Inr (newState # states, selected'')))"

text \<open>The segment of a state: \<open>[state.time, state.time + state.duration + 1]\<close>.\<close>

definition segment_of :: "IconState \<Rightarrow> real \<times> real" where
  "segment_of s = (time s, time s + duration s + 1)"

text \<open>The stroke values the constructor keeps for an icon with states.\<close>

definition supported_strokes :: "jsval list" where
  "supported_strokes =
     [JNum (Finite 1), JNum (Finite 2), JNum (Finite 3),
      JStr ''light'', JStr ''regular'', JStr ''bold'']"

text \<open>A string is truthy when it is not empty; an absent one is not.\<close>

fun truthy_string :: "string option \<Rightarrow> bool" where
  "truthy_string None = False"
| "truthy_string (Some s) = (s \<noteq> [])"

definition startsWith :: "string \<Rightarrow> string \<Rightarrow> bool" where
  "startsWith s pre = (take (length pre) s = pre)"

text \<open>\<open>supplied * (property.value / 50)\<close>, in the runtime's arithmetic.\<close>

definition scaled :: "runtime \<Rightarrow> jsval \<Rightarrow> jsval \<Rightarrow> jsval" where
  "scaled rt supplied original =
     arith rt Times (Data supplied)
       (Data (arith rt Divide (Data original) (Data (JNum (Finite 50)))))"

text \<open>
  The legacy branch of the constructor (\<open>if (!this._availableStates.length)\<close>), on the
  cloned document, block by block: the initial state toggles, the initial stroke, the initial
  scale, the initial axis.
\<close>

definition legacyState ::
  "externals \<Rightarrow> LottieProperty list option \<Rightarrow> IconProperties \<Rightarrow> jsval \<Rightarrow> error + jsval" where
  "legacyState ext properties initial doc =
     (case (properties, state initial) of
        (Some props, Some st) \<Rightarrow>
          if st = [] then Inr doc
          else
            (case updateLottieProperties ext doc
                    [c \<leftarrow> props. startsWith (prop_name c) ''state-''] (JNum (Finite 0)) of
               Inl e \<Rightarrow> Inl e
             | Inr doc' \<Rightarrow>
                 updateLottieProperties ext doc'
                   [c \<leftarrow> props. prop_name c = ''state-'' @ toLowerCase (js ext) st]
                   (JNum (Finite 1)))
      | _ \<Rightarrow> Inr doc)"

definition legacyStroke ::
  "externals \<Rightarrow> LottieProperty list option \<Rightarrow> IconProperties \<Rightarrow> jsval \<Rightarrow> error + jsval" where
  "legacyStroke ext properties initial doc =
     (case properties of
        None \<Rightarrow> Inr doc
      | Some props \<Rightarrow>
          if \<not> truthy (stroke initial) then Inr doc
          else
            (case at0 [c \<leftarrow> props. prop_name c = ''stroke''] of
               None \<Rightarrow> Inr doc
             | Some property \<Rightarrow>
                 set_path (js ext) doc (PathString (prop_path property))
                   (scaled (js ext) (stroke initial) (prop_value property))))"

definition legacyScale ::
  "externals \<Rightarrow> LottieProperty list option \<Rightarrow> IconProperties \<Rightarrow> jsval \<Rightarrow> error + jsval" where
  "legacyScale ext properties initial doc =
     (case properties of
        None \<Rightarrow> Inr doc
      | Some props \<Rightarrow>
          if \<not> truthy (scale initial) then Inr doc
          else
            (case at0 [c \<leftarrow> props. prop_name c = ''scale''] of
               None \<Rightarrow> Inr doc
             | Some property \<Rightarrow>
                 set_path (js ext) doc (PathString (prop_path property))
                   (scaled (js ext) (scale initial) (prop_value property))))"

text \<open>The ratio of the axis block:
  \<open>((property.value[0] + property.value[1]) / 2) / 50\<close>.\<close>

definition axisRatio :: "runtime \<Rightarrow> jsval \<Rightarrow> error + jsval" where
  "axisRatio rt original =
     (case js_member rt (Data original) ''0'' of
        Inl e \<Rightarrow> Inl e
      | Inr v0 \<Rightarrow>
          (case js_member rt (Data original) ''1'' of
             Inl e \<Rightarrow> Inl e
           | Inr v1 \<Rightarrow>
               Inr (arith rt Divide
                      (Data (arith rt Divide (Data (arith rt Plus v0 v1)) (Data (JNum (Finite 2)))))
                      (Data (JNum (Finite 50))))))"

definition legacyAxis ::
  "externals \<Rightarrow> LottieProperty list option \<Rightarrow> IconProperties \<Rightarrow> jsval \<Rightarrow> error + jsval" where
  "legacyAxis ext properties initial doc =
     (case properties of
        None \<Rightarrow> Inr doc
      | Some props \<Rightarrow>
          if \<not> (truthy (axisX initial) \<and> truthy (axisY initial)) then Inr doc
          else
            (case at0 [c \<leftarrow> props. prop_name c = ''axis''] of
               None \<Rightarrow> Inr doc
             | Some property \<Rightarrow>
                 (case axisRatio (js ext) (prop_value property) of
                    Inl e \<Rightarrow> Inl e
                  | Inr ratio \<Rightarrow>
                      (case set_path (js ext) doc (PathString (prop_path property @ ''.0''))
                              (arith (js ext) Times (Data (axisX initial)) (Data ratio)) of
                         Inl e \<Rightarrow> Inl e
                       | Inr doc' \<Rightarrow>
                           set_path (js ext) doc' (PathString (prop_path property @ ''.1''))
                             (arith (js ext) Times (Data (axisY initial)) (Data ratio))))))"

text \<open>The four blocks in the order of the source; the first that raises ends the
  construction.\<close>

definition legacySteps ::
  "externals \<Rightarrow> LottieProperty list option \<Rightarrow> IconProperties \<Rightarrow> jsval \<Rightarrow> error + jsval" where
  "legacySteps ext properties initial doc =
     (case legacyState ext properties initial doc of
        Inl e \<Rightarrow> Inl e
      | Inr doc1 \<Rightarrow>
          (case legacyStroke ext properties initial doc1 of
             Inl e \<Rightarrow> Inl e
           | Inr doc2 \<Rightarrow>
               (case legacyScale ext properties initial doc2 of
                  Inl e \<Rightarrow> Inl e
                | Inr doc3 \<Rightarrow> legacyAxis ext properties initial doc3)))"

text \<open>The branch for an icon with states (\<open>if (this._availableStates.length)\<close>):
  an unsupported stroke is deleted, and an initial state that matched no marker falls back to
  the first state flagged default.\<close>

definition modernIcon :: "Player \<Rightarrow> Player" where
  "modernIcon p =
     (if p_availableStates p = [] then p
      else
        let initial = p_initialProperties p;
            initial' = (if truthy (stroke initial) \<and> stroke initial \<notin> set supported_strokes
                        then initial\<lparr>stroke := JUndefined\<rparr> else initial);
            selected = (if truthy_string (state initial) \<and> p_state p = None
                        then at0 [c \<leftarrow> p_availableStates p. default c] else p_state p)
        in p\<lparr>p_initialProperties := initial', p_state := selected\<rparr>)"

text \<open>The branch for a legacy icon (\<open>if (!this._availableStates.length)\<close>). The clone
  of a tree is the tree.\<close>

definition legacyIcon :: "externals \<Rightarrow> Player \<Rightarrow> error + Player" where
  "legacyIcon ext p =
     (if p_availableStates p \<noteq> [] then Inr p
      else
        (case legacySteps ext (extractLottieProperties ext (p_iconData p) False)
                (p_initialProperties p) (p_iconData p) of
           Inl e \<Rightarrow> Inl e
         | Inr doc \<Rightarrow> Inr (p\<lparr>p_iconData := doc\<rparr>)))"

text \<open>The getter \<open>lottieProperties\<close>, with its memo.\<close>

definition lottieProperties :: "externals \<Rightarrow> Player \<Rightarrow> LottieProperty list \<times> Player" where
  "lottieProperties ext p =
     (case p_lottieProperties p of
        Some props \<Rightarrow> (props, p)
      | None \<Rightarrow>
          let extracted = extractLottieProperties ext (p_iconData p) True;
              memo = (if p_availableStates p = [] then
                        map_option (filter (\<lambda>c. prop_name c \<noteq> ''scale'' \<and> prop_name c \<noteq> ''axis''
                                   \<and> prop_name c \<noteq> ''stroke''
                                   \<and> \<not> startsWith (prop_name c) ''state-'')) extracted
                      else extracted)
          in (case memo of None \<Rightarrow> [] | Some props \<Rightarrow> props, p\<lparr>p_lottieProperties := memo\<rparr>))"

text \<open>
  The setters \<open>colors\<close> and \<open>stroke\<close>. Without an instance they always raise, at the
  latest in \<open>refresh\<close>. With one, \<open>refresh\<close> renders and changes no field.
\<close>

definition set_colors :: "externals \<Rightarrow> (string \<times> string) list option \<Rightarrow> Player \<Rightarrow> error + Player" where
  "set_colors ext cs p =
     (case lottieProperties ext p of
        (props, p') \<Rightarrow>
          (case p_lottieInstance p' of
             None \<Rightarrow> Inl PlayerNotInitialized
           | Some inst \<Rightarrow>
               let cleared = resetInstanceProperties ext inst [c \<leftarrow> props. prop_type c = ''color''];
                   written = fold (\<lambda>(key, v) r.
                       updateInstanceProperties ext r
                         [c \<leftarrow> props. prop_type c = ''color'' \<and> prop_name c = key] (JStr v))
                     (case cs of None \<Rightarrow> [] | Some entries \<Rightarrow> entries) cleared
               in Inr (p'\<lparr>p_lottieInstance := Some written\<rparr>)))"

definition set_stroke :: "externals \<Rightarrow> jsval \<Rightarrow> Player \<Rightarrow> error + Player" where
  "set_stroke ext st p =
     (case lottieProperties ext p of
        (props, p') \<Rightarrow>
          (case p_lottieInstance p' of
             None \<Rightarrow> Inl PlayerNotInitialized
           | Some inst \<Rightarrow>
               let strokes = [c \<leftarrow> props. prop_name c = ''stroke'' \<or> prop_name c = ''stroke-layers''];
                   cleared = resetInstanceProperties ext inst strokes;
                   newStroke = parseStroke ext st;
                   written = (if truthy newStroke
                              then updateInstanceProperties ext cleared strokes newStroke
                              else cleared)
               in Inr (p'\<lparr>p_lottieInstance := Some written\<rparr>)))"

text \<open>\<open>Object.assign(deepClone(this._iconData), fixedParams)\<close> on a document object.\<close>

definition assign_range :: "jsval \<Rightarrow> (real \<times> real) option \<Rightarrow> jsval" where
  "assign_range doc fixedParams =
     (case (doc, fixedParams) of
        (JObj kvs, Some (a, b)) \<Rightarrow>
          JObj (upd_member ''op'' (JNum (Finite b)) (upd_member ''ip'' (JNum (Finite a)) kvs))
      | _ \<Rightarrow> doc)"

text \<open>\<open>init()\<close>. The listeners it registers on the renderer change no field.\<close>

definition init :: "externals \<Rightarrow> Player \<Rightarrow> error + Player" where
  "init ext p =
     (if p_lottieInstance p \<noteq> None then Inl AlreadyConnected
      else
        let states = p_availableStates p;
            fixedParams = (if states = [] then None
                           else Some (time (hd states),
                                      time (last states) + duration (last states) + 1));
            loaded = loadAnimation ext
                       \<lparr>initialSegment = map_option segment_of (p_state p),
                        animationData = assign_range (p_iconData p) fixedParams\<rparr>;
            p1 = p\<lparr>p_lottieInstance := Some loaded\<rparr>
        in (case (case colors (p_initialProperties p1) of
                    None \<Rightarrow> Inr p1
                  | Some cs \<Rightarrow> set_colors ext (Some cs) p1) of
              Inl e \<Rightarrow> Inl e
            | Inr p2 \<Rightarrow>
                (case (if truthy (stroke (p_initialProperties p2))
                       then set_stroke ext (stroke (p_initialProperties p2)) p2
                       else Inr p2) of
                   Inl e \<Rightarrow> Inl e
                 | Inr p3 \<Rightarrow>
                     Inr (p3\<lparr>p_ready := (case p_lottieInstance p3 of
                                            None \<Rightarrow> p_ready p3
                                          | Some r \<Rightarrow> isLoaded r \<or> p_ready p3)\<rparr>))))"

text \<open>\<open>destroy()\<close>\<close>

definition destroy :: "Player \<Rightarrow> error + Player" where
  "destroy p =
     (case p_lottieInstance p of
        None \<Rightarrow> Inl NotConnected
      | Some r \<Rightarrow> Inr (p\<lparr>p_ready := False, p_lottieInstance := None, p_lottieProperties := None\<rparr>))"

text \<open>\<open>data.markers || []\<close>\<close>

definition marker_list :: "LottieData \<Rightarrow> Marker list" where
  "marker_list data = (case markers data of None \<Rightarrow> [] | Some ms \<Rightarrow> ms)"

text \<open>The constructor. \<open>autoInit\<close> is the option of that name.\<close>

definition construct :: "externals \<Rightarrow> LottieData \<Rightarrow> IconProperties \<Rightarrow> bool \<Rightarrow> error + Player" where
  "construct ext data properties autoInit =
     (case mapMarkers (state properties) (marker_list data) None of
        Inl e \<Rightarrow> Inl e
      | Inr (states, selected) \<Rightarrow>
          (case legacyIcon ext (modernIcon
                  \<lparr>p_iconData = tree data, p_initialProperties = properties,
                   p_lottieInstance = None, p_ready = False, p_direction = 1, p_speed = 1,
                   p_lottieProperties = None, p_state = selected,
                   p_availableStates = [c \<leftarrow> states. duration c > 0]\<rparr>) of
             Inl e \<Rightarrow> Inl e
           | Inr p \<Rightarrow> if autoInit then init ext p else Inr p))"

subsection \<open>Transport\<close>

definition play :: "Player \<Rightarrow> error + Player" where
  "play p =
     (case p_lottieInstance p of
        None \<Rightarrow> Inl PlayerNotInitialized
      | Some r \<Rightarrow> Inr (p\<lparr>p_lottieInstance := Some (inst_play (inst_setDirection (p_direction p) r))\<rparr>))"

definition pause :: "Player \<Rightarrow> error + Player" where
  "pause p =
     (case p_lottieInstance p of
        None \<Rightarrow> Inl PlayerNotInitialized
      | Some r \<Rightarrow> Inr (p\<lparr>p_lottieInstance := Some (inst_pause r)\<rparr>))"

definition seek :: "number \<Rightarrow> Player \<Rightarrow> error + Player" where
  "seek frame p =
     (case p_lottieInstance p of
        None \<Rightarrow> Inl PlayerNotInitialized
      | Some r \<Rightarrow> Inr (p\<lparr>p_lottieInstance := Some (inst_goToAndStop frame r)\<rparr>))"

definition switchSegment :: "(real \<times> real) option \<Rightarrow> Player \<Rightarrow> error + Player" where
  "switchSegment segment p =
     (case p_lottieInstance p of
        None \<Rightarrow> Inl PlayerNotInitialized
      | Some r \<Rightarrow>
          Inr (p\<lparr>p_lottieInstance := Some (inst_goToAndStop (Finite 0)
                 (case segment of
                    Some (a, b) \<Rightarrow> inst_setSegment (Finite a) (Finite b) r
                  | None \<Rightarrow> inst_resetSegments r))\<rparr>))"

subsection \<open>Properties\<close>

text \<open>The getter \<open>state\<close>: the name of the selected state, the empty string when
  none is selected.\<close>

definition get_state :: "Player \<Rightarrow> string option" where
  "get_state p = (case p_state p of Some s \<Rightarrow> name s | None \<Rightarrow> Some [])"

definition get_playing :: "Player \<Rightarrow> error + bool" where
  "get_playing p =
     (case p_lottieInstance p of
        None \<Rightarrow> Inl PlayerNotInitialized
      | Some r \<Rightarrow> Inr (\<not> isPaused r))"

definition get_frame :: "Player \<Rightarrow> error + number" where
  "get_frame p =
     (case p_lottieInstance p of
        None \<Rightarrow> Inl PlayerNotInitialized
      | Some r \<Rightarrow> Inr (currentFrame r))"

definition get_frameCount :: "Player \<Rightarrow> error + number" where
  "get_frameCount p =
     (case p_lottieInstance p of
        None \<Rightarrow> Inl PlayerNotInitialized
      | Some r \<Rightarrow> Inr (num_minus (inst_getDuration_frames r) (Finite 1)))"

definition get_segment :: "Player \<Rightarrow> error + number \<times> number" where
  "get_segment p =
     (case p_lottieInstance p of
        None \<Rightarrow> Inl PlayerNotInitialized
      | Some r \<Rightarrow> Inr (firstFrame r, num_plus (firstFrame r) (totalFrames r)))"

text \<open>
  The setter \<open>state\<close>; the argument \<open>None\<close> is \<open>null\<close>. \<open>resolve_state\<close> is the
  selection between the assignment \<open>this._state = undefined\<close> and the segment switch.
\<close>

definition resolve_state :: "IconState list \<Rightarrow> string option \<Rightarrow> IconState option" where
  "resolve_state states st =
     (case st of
        None \<Rightarrow> at0 [c \<leftarrow> states. default c]
      | Some s \<Rightarrow>
          if s \<noteq> [] then
            (case at0 [c \<leftarrow> states. name c = Some s] of
               Some found \<Rightarrow> Some found
             | None \<Rightarrow> at0 [c \<leftarrow> states. default c])
          else None)"

definition set_state :: "string option \<Rightarrow> Player \<Rightarrow> error + Player" where
  "set_state st p =
     (case p_lottieInstance p of
        None \<Rightarrow> Inl PlayerNotInitialized
      | Some r \<Rightarrow>
          if st \<noteq> None \<and> st = get_state p then Inr p
          else
            (case get_playing p of
               Inl e \<Rightarrow> Inl e
             | Inr isPlaying \<Rightarrow>
                 let selected = resolve_state (p_availableStates p) st in
                 (case switchSegment (map_option segment_of selected) (p\<lparr>p_state := selected\<rparr>) of
                    Inl e \<Rightarrow> Inl e
                  | Inr p' \<Rightarrow>
                      if isPlaying then
                        (case pause p' of Inl e \<Rightarrow> Inl e | Inr p'' \<Rightarrow> play p'')
                      else Inr p')))"

text \<open>The setter \<open>frame\<close>: \<open>this.seek(Math.max(0, Math.min(this.frameCount, frame)))\<close>.\<close>

definition set_frame :: "number \<Rightarrow> Player \<Rightarrow> error + Player" where
  "set_frame frame p =
     (case get_frameCount p of
        Inl e \<Rightarrow> Inl e
      | Inr frameCount \<Rightarrow> seek (Math_max (Finite 0) (Math_min frameCount frame)) p)"

section \<open>Example documents and players\<close>

text \<open>
  A runtime for the examples. Objects and arrays inherit the methods named here, each a
  function that takes any property; arithmetic is exact on finite numbers, which is the
  runtime's wherever the exact result is a double, and NaN on anything else.
\<close>

definition object_members :: "string list" where
  "object_members =
     [''constructor'', ''hasOwnProperty'', ''isPrototypeOf'', ''propertyIsEnumerable'',
      ''toLocaleString'', ''toString'', ''valueOf'']"

definition array_members :: "string list" where
  "array_members =
     [''concat'', ''filter'', ''forEach'', ''indexOf'', ''join'', ''map'', ''pop'', ''push'',
      ''reverse'', ''shift'', ''slice'', ''sort'', ''splice'', ''unshift'']"

fun example_inherited :: "ref \<Rightarrow> string \<Rightarrow> ref option" where
  "example_inherited (Data (JObj kvs)) k =
     (if k \<in> set object_members then Some (Builtin k) else None)"
| "example_inherited (Data (JArr xs)) k =
     (if k \<in> set (array_members @ object_members) then Some (Builtin k) else None)"
| "example_inherited v k = None"

fun example_arith :: "binop \<Rightarrow> ref \<Rightarrow> ref \<Rightarrow> jsval" where
  "example_arith Plus (Data (JNum (Finite x))) (Data (JNum (Finite y))) = JNum (Finite (x + y))"
| "example_arith Times (Data (JNum (Finite x))) (Data (JNum (Finite y))) = JNum (Finite (x * y))"
| "example_arith Divide (Data (JNum (Finite x))) (Data (JNum (Finite y))) =
     (if y = 0 then JNum (if 0 < x then PosInfinity else if x < 0 then NegInfinity else NaN)
      else JNum (Finite (x / y)))"
| "example_arith f a b = JNum NaN"

definition ascii_lower :: "string \<Rightarrow> string" where
  "ascii_lower s =
     map (\<lambda>c. case map_of (zip ''ABCDEFGHIJKLMNOPQRSTUVWXYZ'' ''abcdefghijklmnopqrstuvwxyz'') c of
                 None \<Rightarrow> c | Some l \<Rightarrow> l) s"

definition example_runtime :: runtime where
  "example_runtime =
     \<lparr>inherited = example_inherited,
      builtin_object = (\<lambda>b. False),
      builtin_accepts = (\<lambda>b k. True),
      arith = example_arith,
      toNumber = (\<lambda>v. NaN),
      toLowerCase = ascii_lower\<rparr>"

text \<open>
  An environment for the examples: the document has no customization descriptors, so the
  extractor finds nothing and the appliers write nothing; the renderer loads paused, at
  frame 0 of the initial segment, or of the range \<open>ip\<close> to \<open>op\<close> of the animation
  when there is none.
\<close>

definition plain_externals :: externals where
  "plain_externals =
     \<lparr>js = example_runtime,
      extractLottieProperties = (\<lambda>doc inst. Some []),
      updateLottieProperties = (\<lambda>doc props v. Inr doc),
      updateInstanceProperties = (\<lambda>r props v. r),
      resetInstanceProperties = (\<lambda>r props. r),
      parseStroke = (\<lambda>v. JUndefined),
      loadAnimation = (\<lambda>config.
        let range = (case (own_property (animationData config) ''ip'',
                           own_property (animationData config) ''op'') of
                       (Some (JNum a), Some (JNum b)) \<Rightarrow> (a, b)
                     | _ \<Rightarrow> (NaN, NaN));
            seg = (case initialSegment config of
                     None \<Rightarrow> range
                   | Some (a, b) \<Rightarrow> (Finite a, Finite b))
        in \<lparr>isLoaded = True, isPaused = True, currentFrame = Finite 0,
            firstFrame = fst seg, totalFrames = num_minus (snd seg) (fst seg),
            playDirection = 1, ip = fst range, op = snd range\<rparr>)\<rparr>"

text \<open>A legacy environment: the extractor finds one \<open>stroke\<close> slider, of value 50.\<close>

definition legacy_externals :: externals where
  "legacy_externals =
     plain_externals\<lparr>extractLottieProperties := (\<lambda>doc inst.
        Some [\<lparr>prop_name = ''stroke'', prop_path = ''width'', prop_type = ''slider'',
               prop_value = JNum (Finite 50)\<rparr>])\<rparr>"

text \<open>A legacy environment whose extractor finds a \<open>scale\<close> slider, of value 50, and
  an \<open>axis\<close> point, of value \<open>[40, 60]\<close>.\<close>

definition scale_axis_externals :: externals where
  "scale_axis_externals =
     plain_externals\<lparr>extractLottieProperties := (\<lambda>doc inst.
        Some [\<lparr>prop_name = ''scale'', prop_path = ''size'', prop_type = ''slider'',
               prop_value = JNum (Finite 50)\<rparr>,
              \<lparr>prop_name = ''axis'', prop_path = ''pos'', prop_type = ''point'',
               prop_value = JArr [JNum (Finite 40), JNum (Finite 60)]\<rparr>])\<rparr>"

definition no_properties :: IconProperties where
  "no_properties =
     \<lparr>state = None, colors = None, stroke = JUndefined,
      scale = JUndefined, axisX = JUndefined, axisY = JUndefined\<rparr>"

text \<open>An icon with two states, the first flagged default.\<close>

definition in_reveal :: IconState where
  "in_reveal = \<lparr>name = Some ''in-reveal'', time = 0, duration = 60, default = True, params = []\<rparr>"

definition hover_jump :: IconState where
  "hover_jump =
     \<lparr>name = Some ''hover-jump'', time = 70, duration = 50, default = False, params = [''fast'']\<rparr>"

definition two_states :: LottieData where
  "two_states =
     \<lparr>markers = Some [\<lparr>cm = ''default:in-reveal'', tm = 0, dr = 60\<rparr>,
                      \<lparr>cm = ''hover-jump:fast'', tm = 70, dr = 50\<rparr>],
      tree = JObj [(''ip'', JNum (Finite 0)), (''op'', JNum (Finite 121))]\<rparr>"

text \<open>The player that \<open>new Player(container, two_states)\<close> gives, initialized and paused.\<close>

definition paused_player :: Player where
  "paused_player =
     \<lparr>p_iconData = JObj [(''ip'', JNum (Finite 0)), (''op'', JNum (Finite 121))],
      p_initialProperties = no_properties,
      p_lottieInstance = Some \<lparr>isLoaded = True, isPaused = True, currentFrame = Finite 0,
                               firstFrame = Finite 0, totalFrames = Finite 61,
                               playDirection = 1, ip = Finite 0, op = Finite 121\<rparr>,
      p_ready = True, p_direction = 1, p_speed = 1, p_lottieProperties = None,
      p_state = Some in_reveal, p_availableStates = [in_reveal, hover_jump]\<rparr>"

text \<open>The same player after \<open>play()\<close>.\<close>

definition playing_player :: Player where
  "playing_player =
     paused_player\<lparr>p_lottieInstance :=
       Some \<lparr>isLoaded = True, isPaused = False, currentFrame = Finite 0,
             firstFrame = Finite 0, totalFrames = Finite 61, playDirection = 1,
             ip = Finite 0, op = Finite 121\<rparr>\<rparr>"

text \<open>A document without markers whose animation has no frame: \<open>ip = op\<close>.\<close>

definition no_frames :: LottieData where
  "no_frames =
     \<lparr>markers = None, tree = JObj [(''ip'', JNum (Finite 0)), (''op'', JNum (Finite 0))]\<rparr>"

definition no_frames_player :: Player where
  "no_frames_player =
     \<lparr>p_iconData = JObj [(''ip'', JNum (Finite 0)), (''op'', JNum (Finite 0))],
      p_initialProperties = no_properties,
      p_lottieInstance = Some \<lparr>isLoaded = True, isPaused = True, currentFrame = Finite 0,
                               firstFrame = Finite 0, totalFrames = Finite 0,
                               playDirection = 1, ip = Finite 0, op = Finite 0\<rparr>,
      p_ready = True, p_direction = 1, p_speed = 1, p_lottieProperties = None,
      p_state = None, p_availableStates = []\<rparr>"

text \<open>A legacy icon: its only marker has no duration, and its stroke slider is the member
  \<open>width\<close>.\<close>

definition legacy_icon :: LottieData where
  "legacy_icon =
     \<lparr>markers = Some [\<lparr>cm = ''hover'', tm = 0, dr = 0\<rparr>],
      tree = JObj [(''width'', JNum (Finite 50))]\<rparr>"

text \<open>An icon with one state, not flagged default, and the player that
  \<open>new Player(container, one_state, {state: "hover-jump"})\<close> gives.\<close>

definition one_state :: LottieData where
  "one_state =
     \<lparr>markers = Some [\<lparr>cm = ''hover-jump:fast'', tm = 70, dr = 50\<rparr>],
      tree = JObj [(''ip'', JNum (Finite 0)), (''op'', JNum (Finite 121))]\<rparr>"

definition no_default_player :: Player where
  "no_default_player =
     \<lparr>p_iconData = JObj [(''ip'', JNum (Finite 0)), (''op'', JNum (Finite 121))],
      p_initialProperties = no_properties\<lparr>state := Some ''hover-jump''\<rparr>,
      p_lottieInstance = Some \<lparr>isLoaded = True, isPaused = True, currentFrame = Finite 0,
                               firstFrame = Finite 70, totalFrames = Finite 51,
                               playDirection = 1, ip = Finite 70, op = Finite 121\<rparr>,
      p_ready = True, p_direction = 1, p_speed = 1, p_lottieProperties = None,
      p_state = Some hover_jump, p_availableStates = [hover_jump]\<rparr>"

section \<open>Path accessor\<close>








section \<open>The example players are what the constructor and \<open>play\<close> give\<close>

lemma paused_player_constructed:
  "construct plain_externals two_states no_properties True = Inr paused_player"
  by (simp add: construct_def marker_list_def two_states_def no_properties_def parseMarker_def
      SUPPORTED_STATE_FLAGS_def modernIcon_def legacyIcon_def init_def Let_def
      plain_externals_def assign_range_def segment_of_def paused_player_def
      in_reveal_def hover_jump_def num_minus_def)

lemma playing_player_played: "play paused_player = Inr playing_player"
  by (simp add: play_def paused_player_def playing_player_def inst_play_def
      inst_setDirection_def)

lemma no_frames_player_constructed:
  "construct plain_externals no_frames no_properties True = Inr no_frames_player"
  by (simp add: construct_def marker_list_def no_frames_def no_properties_def
      modernIcon_def legacyIcon_def legacySteps_def legacyState_def legacyStroke_def
      legacyScale_def legacyAxis_def init_def Let_def
      plain_externals_def assign_range_def no_frames_player_def num_minus_def)

lemma legacy_icon_constructed:
  "construct legacy_externals legacy_icon (no_properties\<lparr>stroke := JNum (Finite 7)\<rparr>) False =
   Inr \<lparr>p_iconData = JObj [(''width'', JNum (Finite 7))],
        p_initialProperties = no_properties\<lparr>stroke := JNum (Finite 7)\<rparr>,
        p_lottieInstance = None, p_ready = False, p_direction = 1, p_speed = 1,
        p_lottieProperties = None, p_state = None, p_availableStates = []\<rparr>"
  by (simp add: construct_def marker_list_def legacy_icon_def no_properties_def parseMarker_def
      SUPPORTED_STATE_FLAGS_def
      modernIcon_def legacyIcon_def legacySteps_def legacyState_def legacyStroke_def
      legacyScale_def legacyAxis_def legacy_externals_def
      plain_externals_def example_runtime_def set_path_def scaled_def Let_def)

lemma no_default_player_constructed:
  "construct plain_externals one_state (no_properties\<lparr>state := Some ''hover-jump''\<rparr>) True =
   Inr no_default_player"
  by (simp add: construct_def marker_list_def one_state_def no_properties_def parseMarker_def
      SUPPORTED_STATE_FLAGS_def modernIcon_def legacyIcon_def init_def Let_def
      plain_externals_def assign_range_def segment_of_def no_default_player_def
      hover_jump_def num_minus_def)

text \<open>On a legacy document the initial scale and the initial axis are written: the scale
  slider with \<open>2 * (50 / 50)\<close>, the axis point with \<open>10\<close> and \<open>20\<close> times
  \<open>((40 + 60) / 2) / 50\<close>.\<close>

lemma legacy_scale_axis_written:
  "construct scale_axis_externals
     \<lparr>markers = None,
      tree = JObj [(''size'', JNum (Finite 50)),
                   (''pos'', JArr [JNum (Finite 40), JNum (Finite 60)])]\<rparr>
     (no_properties\<lparr>scale := JNum (Finite 2), axisX := JNum (Finite 10),
                     axisY := JNum (Finite 20)\<rparr>) False =
   Inr \<lparr>p_iconData = JObj [(''size'', JNum (Finite 2)),
                            (''pos'', JArr [JNum (Finite 10), JNum (Finite 20)])],
        p_initialProperties =
          no_properties\<lparr>scale := JNum (Finite 2), axisX := JNum (Finite 10),
                          axisY := JNum (Finite 20)\<rparr>,
        p_lottieInstance = None, p_ready = False, p_direction = 1, p_speed = 1,
        p_lottieProperties = None, p_state = None, p_availableStates = []\<rparr>"
  by (simp add: construct_def marker_list_def no_properties_def
      modernIcon_def legacyIcon_def legacySteps_def legacyState_def legacyStroke_def
      legacyScale_def legacyAxis_def axisRatio_def js_member_def scale_axis_externals_def
      plain_externals_def example_runtime_def set_path_def scaled_def Let_def
      array_index_def digit_value_def)

section \<open>Marker parsing and initialization never fail\<close>

lemma readFlags_total: "\<exists>d ps. readFlags parts dflt = Inr (d, ps)"
  by (induction parts arbitrary: dflt) (simp_all add: SUPPORTED_STATE_FLAGS_def)

lemma parseMarker_total: "\<exists>s sel'. parseMarker req c sel = Inr (s, sel')"
proof -
  obtain d ps where "readFlags (str_split (CHR '':'') (cm c)) False = Inr (d, ps)"
    using readFlags_total by blast
  then show ?thesis by (simp add: parseMarker_def Let_def)
qed

lemma mapMarkers_total: "\<exists>states sel'. mapMarkers req ms sel = Inr (states, sel')"
proof (induction ms arbitrary: sel)
  case Nil
  show ?case by simp
next
  case (Cons c cs)
  obtain s sel1 where 1: "parseMarker req c sel = Inr (s, sel1)"
    using parseMarker_total by blast
  obtain ss sel2 where 2: "mapMarkers req cs sel1 = Inr (ss, sel2)"
    using Cons.IH by blast
  from 1 2 show ?case by simp
qed

lemma mapMarkers_member:
  "mapMarkers req ms sel = Inr (states, sel') \<Longrightarrow> c \<in> set ms \<Longrightarrow>
   \<exists>s sel1 sel2. parseMarker req c sel1 = Inr (s, sel2) \<and> s \<in> set states"
proof (induction ms arbitrary: sel states sel')
  case Nil
  then show ?case by simp
next
  case (Cons a cs)
  obtain s sel1 where 1: "parseMarker req a sel = Inr (s, sel1)"
    using parseMarker_total by blast
  obtain ss sel2 where 2: "mapMarkers req cs sel1 = Inr (ss, sel2)"
    using mapMarkers_total by blast
  from 1 2 Cons.prems(1) have st: "states = s # ss" by simp
  show ?case
  proof (cases "c = a")
    case True
    with 1 st show ?thesis by auto
  next
    case False
    with Cons.prems(2) have "c \<in> set cs" by simp
    from Cons.IH [OF 2 this] st show ?thesis by auto
  qed
qed

lemma lottieProperties_fields:
  "lottieProperties ext p = (props, p') \<Longrightarrow>
   p_lottieInstance p' = p_lottieInstance p \<and> p_availableStates p' = p_availableStates p \<and>
   p_state p' = p_state p \<and> p_initialProperties p' = p_initialProperties p \<and>
   p_iconData p' = p_iconData p \<and> p_ready p' = p_ready p"
  by (auto simp: lottieProperties_def Let_def split: option.splits)

lemma set_colors_fields:
  "set_colors ext cs p = Inr p' \<Longrightarrow>
   p_availableStates p' = p_availableStates p \<and> p_state p' = p_state p \<and>
   p_initialProperties p' = p_initialProperties p \<and> p_iconData p' = p_iconData p \<and>
   p_lottieInstance p' \<noteq> None"
  unfolding set_colors_def
  by (auto simp: Let_def split: prod.splits option.splits dest!: lottieProperties_fields)

lemma set_stroke_fields:
  "set_stroke ext st p = Inr p' \<Longrightarrow>
   p_availableStates p' = p_availableStates p \<and> p_state p' = p_state p \<and>
   p_initialProperties p' = p_initialProperties p \<and> p_iconData p' = p_iconData p \<and>
   p_lottieInstance p' \<noteq> None"
  unfolding set_stroke_def
  by (auto simp: Let_def split: prod.splits option.splits dest!: lottieProperties_fields)

lemma set_colors_total:
  "p_lottieInstance p \<noteq> None \<Longrightarrow> \<exists>p'. set_colors ext cs p = Inr p'"
  unfolding set_colors_def
  by (auto simp: Let_def split: prod.splits option.splits dest!: lottieProperties_fields)

lemma set_stroke_total:
  "p_lottieInstance p \<noteq> None \<Longrightarrow> \<exists>p'. set_stroke ext st p = Inr p'"
  unfolding set_stroke_def
  by (auto simp: Let_def split: prod.splits option.splits dest!: lottieProperties_fields)

lemma init_fields:
  "init ext p = Inr p' \<Longrightarrow>
   p_availableStates p' = p_availableStates p \<and> p_state p' = p_state p \<and>
   p_initialProperties p' = p_initialProperties p \<and> p_iconData p' = p_iconData p"
  unfolding init_def
  by (auto simp: Let_def split: if_splits option.splits sum.splits
      dest!: set_colors_fields set_stroke_fields)

lemma init_total: "p_lottieInstance p = None \<Longrightarrow> \<exists>p'. init ext p = Inr p'"
proof -
  assume n: "p_lottieInstance p = None"
  define states where "states = p_availableStates p"
  define loaded where "loaded = loadAnimation ext
     \<lparr>initialSegment = map_option segment_of (p_state p),
      animationData = assign_range (p_iconData p)
        (if states = [] then None
         else Some (time (hd states), time (last states) + duration (last states) + 1))\<rparr>"
  define p1 where "p1 = p\<lparr>p_lottieInstance := Some loaded\<rparr>"
  have i1: "p_lottieInstance p1 \<noteq> None" by (simp add: p1_def)
  obtain p2 where 2: "(case colors (p_initialProperties p1) of
                    None \<Rightarrow> Inr p1
                  | Some cs \<Rightarrow> set_colors ext (Some cs) p1) = Inr p2"
    using set_colors_total [OF i1] by (cases "colors (p_initialProperties p1)") auto
  have i2: "p_lottieInstance p2 \<noteq> None"
    using 2 i1 set_colors_fields by (cases "colors (p_initialProperties p1)") auto
  obtain p3 where 3: "(if truthy (stroke (p_initialProperties p2))
                       then set_stroke ext (stroke (p_initialProperties p2)) p2
                       else Inr p2) = Inr p3"
    using set_stroke_total [OF i2] by (cases "truthy (stroke (p_initialProperties p2))") auto
  show ?thesis
    using n 2 3 unfolding init_def Let_def states_def [symmetric] loaded_def [symmetric] p1_def [symmetric]
    by simp
qed

section \<open>The constructor\<close>

lemma modernIcon_fields:
  "p_availableStates (modernIcon p) = p_availableStates p \<and>
   p_lottieInstance (modernIcon p) = p_lottieInstance p \<and>
   p_iconData (modernIcon p) = p_iconData p"
  by (simp add: modernIcon_def Let_def)

lemma legacyIcon_fields:
  "legacyIcon ext p = Inr p' \<Longrightarrow>
   p_availableStates p' = p_availableStates p \<and> p_lottieInstance p' = p_lottieInstance p \<and>
   p_initialProperties p' = p_initialProperties p \<and> p_state p' = p_state p"
  by (auto simp: legacyIcon_def Let_def split: if_splits sum.splits)

lemma legacyIcon_modern: "p_availableStates p \<noteq> [] \<Longrightarrow> legacyIcon ext p = Inr p"
  by (simp add: legacyIcon_def)

lemma construct_availableStates:
  assumes "construct ext data properties autoInit = Inr p"
  shows "\<exists>states sel. mapMarkers (state properties) (marker_list data) None = Inr (states, sel)
           \<and> p_availableStates p = [c \<leftarrow> states. 0 < duration c]"
proof -
  obtain states sel where m: "mapMarkers (state properties) (marker_list data) None = Inr (states, sel)"
    using mapMarkers_total by blast
  define p0 where "p0 = \<lparr>p_iconData = tree data, p_initialProperties = properties,
                   p_lottieInstance = None, p_ready = False, p_direction = 1, p_speed = 1,
                   p_lottieProperties = None, p_state = sel,
                   p_availableStates = [c \<leftarrow> states. duration c > 0]\<rparr>"
  from assms m obtain q where q: "legacyIcon ext (modernIcon p0) = Inr q"
    and r: "(if autoInit then init ext q else Inr q) = Inr p"
    by (auto simp: construct_def p0_def split: sum.splits)
  have "p_availableStates q = [c \<leftarrow> states. 0 < duration c]"
    using legacyIcon_fields [OF q] modernIcon_fields [of p0] by (simp add: p0_def)
  moreover have "p_availableStates p = p_availableStates q"
    using r init_fields [of ext q p] by (cases autoInit) auto
  ultimately show ?thesis using m by auto
qed

lemma construct_modern_total:
  assumes m: "mapMarkers (state properties) (marker_list data) None = Inr (states, sel)"
    and ne: "[c \<leftarrow> states. 0 < duration c] \<noteq> []"
  shows "\<exists>p. construct ext data properties autoInit = Inr p"
proof -
  define p0 where "p0 = \<lparr>p_iconData = tree data, p_initialProperties = properties,
                   p_lottieInstance = None, p_ready = False, p_direction = 1, p_speed = 1,
                   p_lottieProperties = None, p_state = sel,
                   p_availableStates = [c \<leftarrow> states. duration c > 0]\<rparr>"
  have a: "p_availableStates (modernIcon p0) \<noteq> []"
    using ne modernIcon_fields [of p0] by (simp add: p0_def)
  have q: "legacyIcon ext (modernIcon p0) = Inr (modernIcon p0)"
    using a by (rule legacyIcon_modern)
  have "p_lottieInstance (modernIcon p0) = None"
    using modernIcon_fields [of p0] by (simp add: p0_def)
  then obtain p where "init ext (modernIcon p0) = Inr p"
    using init_total by blast
  with q m show ?thesis
    by (cases autoInit) (simp_all add: construct_def p0_def [symmetric])
qed

lemma construct_initialProperties:
  assumes "construct ext data properties autoInit = Inr p"
    and "mapMarkers (state properties) (marker_list data) None = Inr (states, sel)"
  shows "p_initialProperties p =
         p_initialProperties (modernIcon
            \<lparr>p_iconData = tree data, p_initialProperties = properties,
             p_lottieInstance = None, p_ready = False, p_direction = 1, p_speed = 1,
             p_lottieProperties = None, p_state = sel,
             p_availableStates = [c \<leftarrow> states. duration c > 0]\<rparr>)"
proof -
  define p0 where "p0 = \<lparr>p_iconData = tree data, p_initialProperties = properties,
                   p_lottieInstance = None, p_ready = False, p_direction = 1, p_speed = 1,
                   p_lottieProperties = None, p_state = sel,
                   p_availableStates = [c \<leftarrow> states. duration c > 0]\<rparr>"
  from assms obtain q where q: "legacyIcon ext (modernIcon p0) = Inr q"
    and r: "(if autoInit then init ext q else Inr q) = Inr p"
    by (auto simp: construct_def p0_def split: sum.splits)
  have "p_initialProperties q = p_initialProperties (modernIcon p0)"
    using legacyIcon_fields [OF q] by simp
  moreover have "p_initialProperties p = p_initialProperties q"
    using r init_fields [of ext q p] by (cases autoInit) auto
  ultimately show ?thesis by (simp add: p0_def)
qed

lemma construct_legacy_iconData:
  assumes p: "construct ext data properties autoInit = Inr p"
    and m: "mapMarkers (state properties) (marker_list data) None = Inr (states, sel)"
    and e: "[s \<leftarrow> states. 0 < duration s] = []"
  shows "legacySteps ext (extractLottieProperties ext (tree data) False) properties (tree data) =
           Inr (p_iconData p)"
proof -
  define p0 where "p0 = \<lparr>p_iconData = tree data, p_initialProperties = properties,
                   p_lottieInstance = None, p_ready = False, p_direction = 1, p_speed = 1,
                   p_lottieProperties = None, p_state = sel,
                   p_availableStates = [c \<leftarrow> states. duration c > 0]\<rparr>"
  have mi: "modernIcon p0 = p0" using e by (simp add: modernIcon_def p0_def)
  from p m obtain q where q: "legacyIcon ext (modernIcon p0) = Inr q"
    and r: "(if autoInit then init ext q else Inr q) = Inr p"
    by (auto simp: construct_def p0_def split: sum.splits)
  have pq: "p_iconData p = p_iconData q"
    using r init_fields [of ext q p] by (cases autoInit) auto
  from q mi e have
    "legacySteps ext (extractLottieProperties ext (tree data) False) properties (tree data) =
       Inr (p_iconData q)"
    by (auto simp: legacyIcon_def p0_def split: sum.splits)
  with pq show ?thesis by simp
qed

lemma str_split_nonempty: "str_split sep s \<noteq> []"
  by (induction s) (auto split: list.splits)

lemma parseMarker_state:
  "parseMarker req c sel = Inr (s, sel') \<Longrightarrow> time s = tm c \<and> duration s = dr c"
  by (auto simp: parseMarker_def Let_def split: sum.splits prod.splits)

lemma valid_marker_state:
  assumes "mapMarkers req ms sel = Inr (states, sel')"
    and "c \<in> set ms" and "0 < dr c"
  shows "[s \<leftarrow> states. 0 < duration s] \<noteq> []"
proof -
  from mapMarkers_member [OF assms(1,2)] obtain s sel1 sel2
    where "parseMarker req c sel1 = Inr (s, sel2)" and mem: "s \<in> set states"
    by blast
  then have "duration s = dr c" using parseMarker_state by blast
  with mem assms(3) have "s \<in> set [s \<leftarrow> states. 0 < duration s]" by simp
  then show ?thesis by (metis empty_iff empty_set)
qed

lemma no_valid_marker_state:
  assumes "mapMarkers req ms sel = Inr (states, sel')"
    and "\<forall>c \<in> set ms. dr c \<le> 0"
  shows "[s \<leftarrow> states. 0 < duration s] = []"
  using assms
proof (induction ms arbitrary: sel states sel')
  case Nil
  then show ?case by simp
next
  case (Cons a cs)
  obtain s sel1 where 1: "parseMarker req a sel = Inr (s, sel1)"
    using parseMarker_total by blast
  obtain ss sel2 where 2: "mapMarkers req cs sel1 = Inr (ss, sel2)"
    using mapMarkers_total by blast
  from 1 2 Cons.prems(1) have st: "states = s # ss" by simp
  have "duration s = dr a" using 1 parseMarker_state by blast
  moreover have "[s \<leftarrow> ss. 0 < duration s] = []"
    using Cons.IH [OF 2] Cons.prems(2) by simp
  ultimately show ?case using st Cons.prems(2) by simp
qed

section \<open>The state catalog\<close>

lemma parse_default_hover_spending_fast:
  assumes "cm c = ''default:hover-spending:fast''"
    and "parseMarker req c sel = Inr (s, sel')"
  shows "s = \<lparr>name = Some ''hover-spending'', time = tm c, duration = dr c,
               default = True, params = [''fast'']\<rparr>"
  using assms by (simp add: parseMarker_def SUPPORTED_STATE_FLAGS_def Let_def)

text \<open>
  C7. A marker named \<open>default:hover-spending:fast\<close> with a positive duration, anywhere in
  the marker list of a document: the constructor succeeds, and the catalog holds the state
  with \<open>default = true\<close>, name \<open>hover-spending\<close> and parameters \<open>[fast]\<close>, at the
  marker's time and duration. One flag token is consumed, the next token is the name, the
  rest are parameters.
\<close>

theorem marker_default_hover_spending_fast:
  assumes "c \<in> set (marker_list data)"
    and "cm c = ''default:hover-spending:fast''"
    and "0 < dr c"
  shows "\<exists>p. construct ext data properties autoInit = Inr p \<and>
           \<lparr>name = Some ''hover-spending'', time = tm c, duration = dr c,
            default = True, params = [''fast'']\<rparr> \<in> set (p_availableStates p)"
proof -
  let ?s = "\<lparr>name = Some ''hover-spending'', time = tm c, duration = dr c,
            default = True, params = [''fast'']\<rparr>"
  obtain states sel where m: "mapMarkers (state properties) (marker_list data) None = Inr (states, sel)"
    using mapMarkers_total by blast
  from mapMarkers_member [OF m assms(1)] obtain s sel1 sel2
    where ps: "parseMarker (state properties) c sel1 = Inr (s, sel2)" and mem: "s \<in> set states"
    by blast
  have s: "s = ?s" using assms(2) ps by (rule parse_default_hover_spending_fast)
  have in_f: "?s \<in> set [c \<leftarrow> states. 0 < duration c]"
    using mem s assms(3) by simp
  then have ne: "[c \<leftarrow> states. 0 < duration c] \<noteq> []"
    by (metis empty_iff empty_set)
  obtain p where p: "construct ext data properties autoInit = Inr p"
    using construct_modern_total [OF m ne] by blast
  from construct_availableStates [OF p] m
  have "p_availableStates p = [c \<leftarrow> states. 0 < duration c]" by simp
  with in_f p show ?thesis by auto
qed

theorem marker_default_hover_spending_fast_witness:
  "\<lparr>cm = ''default:hover-spending:fast'', tm = 0, dr = 30\<rparr>
     \<in> set (marker_list \<lparr>markers = Some [\<lparr>cm = ''default:hover-spending:fast'', tm = 0, dr = 30\<rparr>],
                          tree = JObj []\<rparr>) \<and>
   (\<exists>p. construct plain_externals
           \<lparr>markers = Some [\<lparr>cm = ''default:hover-spending:fast'', tm = 0, dr = 30\<rparr>],
            tree = JObj []\<rparr> no_properties True = Inr p \<and>
         \<lparr>name = Some ''hover-spending'', time = 0, duration = 30,
          default = True, params = [''fast'']\<rparr> \<in> set (p_availableStates p))"
  using marker_default_hover_spending_fast
    [of "\<lparr>cm = ''default:hover-spending:fast'', tm = 0, dr = 30\<rparr>"
        "\<lparr>markers = Some [\<lparr>cm = ''default:hover-spending:fast'', tm = 0, dr = 30\<rparr>],
          tree = JObj []\<rparr>" plain_externals no_properties True]
  by (simp add: marker_list_def)

text \<open>
  C6. For every document, every entry of the constructed catalog \<open>availableStates\<close> has
  a duration above zero: a marker of zero or negative duration is never stored as a state.
\<close>

theorem available_states_positive_duration:
  assumes "construct ext data properties autoInit = Inr p"
  shows "\<forall>s \<in> set (p_availableStates p). 0 < duration s"
  using construct_availableStates [OF assms] by auto

theorem available_states_positive_duration_witness:
  "construct plain_externals two_states no_properties True = Inr paused_player \<and>
   p_availableStates paused_player = [in_reveal, hover_jump] \<and>
   0 < duration in_reveal \<and> 0 < duration hover_jump"
  using available_states_positive_duration [OF paused_player_constructed]
    paused_player_constructed by (simp add: paused_player_def)

text \<open>
  C1, as amended. Marker parsing never fails, for any marker list: the flag loop runs only on
  tokens of \<open>SUPPORTED_STATE_FLAGS\<close>, each of which the switch handles, so its
  \<open>throw\<close> is never reached. A leading token that is not a recognized flag is the name
  of the state, the tokens after it are its parameters, and the state is not flagged default.
\<close>

theorem unrecognized_token_is_state_name:
  "(\<exists>states sel. mapMarkers requested ms selected = Inr (states, sel)) \<and>
   (hd (str_split (CHR '':'') (cm c)) \<notin> set SUPPORTED_STATE_FLAGS \<longrightarrow>
      (\<exists>sel. parseMarker requested c selected =
         Inr (\<lparr>name = Some (hd (str_split (CHR '':'') (cm c))), time = tm c, duration = dr c,
               default = False, params = tl (str_split (CHR '':'') (cm c))\<rparr>, sel)))"
proof -
  obtain part parts where sp: "str_split (CHR '':'') (cm c) = part # parts"
    using str_split_nonempty [of "CHR '':''" "cm c"] by (cases "str_split (CHR '':'') (cm c)") auto
  have "hd (str_split (CHR '':'') (cm c)) \<notin> set SUPPORTED_STATE_FLAGS \<Longrightarrow>
      (\<exists>sel. parseMarker requested c selected =
         Inr (\<lparr>name = Some (hd (str_split (CHR '':'') (cm c))), time = tm c, duration = dr c,
               default = False, params = tl (str_split (CHR '':'') (cm c))\<rparr>, sel))"
    by (simp add: sp parseMarker_def Let_def drop_Suc)
  with mapMarkers_total [of requested ms selected] show ?thesis by blast
qed

theorem unrecognized_token_is_state_name_witness:
  "hd (str_split (CHR '':'') (cm \<lparr>cm = ''bogus:foo'', tm = 0, dr = 10\<rparr>)) \<notin> set SUPPORTED_STATE_FLAGS \<and>
   (\<exists>sel. parseMarker None \<lparr>cm = ''bogus:foo'', tm = 0, dr = 10\<rparr> None =
      Inr (\<lparr>name = Some ''bogus'', time = 0, duration = 10, default = False, params = [''foo'']\<rparr>, sel))"
  using unrecognized_token_is_state_name
    [of None "[]" None "\<lparr>cm = ''bogus:foo'', tm = 0, dr = 10\<rparr>"]
  by (simp add: SUPPORTED_STATE_FLAGS_def)

text \<open>
  The claim as stated fails on the marker \<open>bogus:foo\<close>: construction succeeds, with a
  state named \<open>bogus\<close> in the catalog.
\<close>

theorem bogus_flag_counterexample:
  "construct plain_externals
     \<lparr>markers = Some [\<lparr>cm = ''bogus:foo'', tm = 0, dr = 10\<rparr>], tree = JObj []\<rparr>
     no_properties False =
   Inr \<lparr>p_iconData = JObj [], p_initialProperties = no_properties,
        p_lottieInstance = None, p_ready = False, p_direction = 1, p_speed = 1,
        p_lottieProperties = None, p_state = None,
        p_availableStates = [\<lparr>name = Some ''bogus'', time = 0, duration = 10,
                               default = False, params = [''foo'']\<rparr>]\<rparr>"
  by (simp add: construct_def marker_list_def no_properties_def parseMarker_def
      SUPPORTED_STATE_FLAGS_def modernIcon_def legacyIcon_def Let_def)

text \<open>
  C2. The document whose only marker is \<open>default:a\<close> with duration 0, and no initial
  state requested: the catalog is empty, as the claim says, but the discarded marker was
  selected inside the \<open>map\<close> callback, before the filter on the duration, and the getter
  \<open>state\<close> reads \<open>a\<close> where the claim says it reads empty.
\<close>

theorem discarded_marker_selected:
  "construct plain_externals
     \<lparr>markers = Some [\<lparr>cm = ''default:a'', tm = 0, dr = 0\<rparr>], tree = JObj []\<rparr>
     no_properties False =
   Inr \<lparr>p_iconData = JObj [], p_initialProperties = no_properties,
        p_lottieInstance = None, p_ready = False, p_direction = 1, p_speed = 1,
        p_lottieProperties = None,
        p_state = Some \<lparr>name = Some ''a'', time = 0, duration = 0, default = True, params = []\<rparr>,
        p_availableStates = []\<rparr> \<and>
   get_state \<lparr>p_iconData = JObj [], p_initialProperties = no_properties,
        p_lottieInstance = None, p_ready = False, p_direction = 1, p_speed = 1,
        p_lottieProperties = None,
        p_state = Some \<lparr>name = Some ''a'', time = 0, duration = 0, default = True, params = []\<rparr>,
        p_availableStates = []\<rparr> = Some ''a''"
  by (simp add: construct_def marker_list_def no_properties_def parseMarker_def
      SUPPORTED_STATE_FLAGS_def modernIcon_def legacyIcon_def legacySteps_def legacyState_def
      legacyStroke_def legacyScale_def legacyAxis_def plain_externals_def get_state_def Let_def)

section \<open>The initial stroke\<close>

text \<open>
  C3, as amended. For a supplied initial stroke outside the vocabulary
  \<open>{1, 2, 3, light, regular, bold}\<close>: when the document has a marker of positive duration,
  a truthy value is deleted, so that construction gives what it gives with no stroke supplied,
  and in every case the stroke the player keeps is not truthy, which is what every later use
  tests. When the document has no marker of positive duration (a legacy icon), the constructor
  does not filter: the player keeps the stroke as supplied, and the document it keeps is the
  one the four legacy steps give, in the order of the source: the initial state, the initial
  stroke, whose slider is written with the supplied stroke times a fiftieth of its value, the
  initial scale and the initial axis, each computed in the runtime's arithmetic.
\<close>

theorem initial_stroke_filter:
  assumes "stroke properties \<notin> set supported_strokes"
  shows "((\<exists>c \<in> set (marker_list data). 0 < dr c) \<longrightarrow>
            (truthy (stroke properties) \<longrightarrow>
               construct ext data properties autoInit =
               construct ext data (properties\<lparr>stroke := JUndefined\<rparr>) autoInit) \<and>
            (\<forall>p. construct ext data properties autoInit = Inr p \<longrightarrow>
               \<not> truthy (stroke (p_initialProperties p)))) \<and>
         ((\<forall>c \<in> set (marker_list data). dr c \<le> 0) \<longrightarrow>
            (\<forall>p. construct ext data properties autoInit = Inr p \<longrightarrow>
               stroke (p_initialProperties p) = stroke properties \<and>
               legacySteps ext (extractLottieProperties ext (tree data) False) properties
                 (tree data) = Inr (p_iconData p)))"
proof -
  obtain states sel where m: "mapMarkers (state properties) (marker_list data) None = Inr (states, sel)"
    using mapMarkers_total by blast
  let ?p0 = "\<lambda>props. \<lparr>p_iconData = tree data, p_initialProperties = props,
             p_lottieInstance = None, p_ready = False, p_direction = 1, p_speed = 1,
             p_lottieProperties = None, p_state = sel,
             p_availableStates = [c \<leftarrow> states. duration c > 0]\<rparr>"
  have modern: "(truthy (stroke properties) \<longrightarrow>
               construct ext data properties autoInit =
               construct ext data (properties\<lparr>stroke := JUndefined\<rparr>) autoInit) \<and>
            (\<forall>p. construct ext data properties autoInit = Inr p \<longrightarrow>
               \<not> truthy (stroke (p_initialProperties p)))"
    if "\<exists>c \<in> set (marker_list data). 0 < dr c"
  proof -
    from that obtain c where "c \<in> set (marker_list data)" "0 < dr c" by blast
    from valid_marker_state [OF m this] have ne: "[s \<leftarrow> states. 0 < duration s] \<noteq> []" .
    have same: "modernIcon (?p0 properties) = modernIcon (?p0 (properties\<lparr>stroke := JUndefined\<rparr>))"
      if "truthy (stroke properties)"
      using that assms ne by (simp add: modernIcon_def Let_def)
    have eq: "construct ext data properties autoInit =
               construct ext data (properties\<lparr>stroke := JUndefined\<rparr>) autoInit"
      if "truthy (stroke properties)"
      using same [OF that] m by (simp add: construct_def)
    have "\<not> truthy (stroke (p_initialProperties (modernIcon (?p0 properties))))"
      using assms ne by (simp add: modernIcon_def Let_def)
    then have "\<not> truthy (stroke (p_initialProperties p))"
      if "construct ext data properties autoInit = Inr p" for p
      using construct_initialProperties [OF that m] by simp
    with eq show ?thesis by blast
  qed
  have legacy: "stroke (p_initialProperties p) = stroke properties \<and>
               legacySteps ext (extractLottieProperties ext (tree data) False) properties
                 (tree data) = Inr (p_iconData p)"
    if none: "\<forall>c \<in> set (marker_list data). dr c \<le> 0"
      and p: "construct ext data properties autoInit = Inr p" for p
  proof -
    from no_valid_marker_state [OF m none] have e: "[s \<leftarrow> states. 0 < duration s] = []" .
    have "p_initialProperties (modernIcon (?p0 properties)) = properties"
      using e by (simp add: modernIcon_def)
    with construct_initialProperties [OF p m] construct_legacy_iconData [OF p m e]
    show ?thesis by simp
  qed
  from modern legacy show ?thesis by blast
qed

theorem initial_stroke_filter_witness:
  "JNum (Finite 7) \<notin> set supported_strokes \<and>
   \<lparr>cm = ''default:in-reveal'', tm = 0, dr = 60\<rparr> \<in> set (marker_list two_states) \<and>
   (0::real) < 60 \<and> truthy (JNum (Finite 7)) \<and>
   construct plain_externals two_states (no_properties\<lparr>stroke := JNum (Finite 7)\<rparr>) True = Inr paused_player \<and>
   \<not> truthy (stroke (p_initialProperties paused_player)) \<and>
   marker_list legacy_icon = [\<lparr>cm = ''hover'', tm = 0, dr = 0\<rparr>] \<and>
   (\<exists>p. construct legacy_externals legacy_icon (no_properties\<lparr>stroke := JNum (Finite 7)\<rparr>) False = Inr p \<and>
        stroke (p_initialProperties p) = JNum (Finite 7) \<and>
        legacySteps legacy_externals
          (extractLottieProperties legacy_externals (tree legacy_icon) False)
          (no_properties\<lparr>stroke := JNum (Finite 7)\<rparr>) (tree legacy_icon) = Inr (p_iconData p) \<and>
        p_iconData p = JObj [(''width'', JNum (Finite 7))])"
proof -
  have 1: "stroke (no_properties\<lparr>stroke := JNum (Finite 7)\<rparr>) \<notin> set supported_strokes"
    by (simp add: supported_strokes_def)
  have 2: "\<lparr>cm = ''default:in-reveal'', tm = 0, dr = 60\<rparr> \<in> set (marker_list two_states)"
    by (simp add: marker_list_def two_states_def)
  then have 3: "\<exists>c \<in> set (marker_list two_states). 0 < dr c"
    by (rule bexI [rotated]) simp
  have 4: "truthy (stroke (no_properties\<lparr>stroke := JNum (Finite 7)\<rparr>))" by simp
  have u: "no_properties\<lparr>stroke := JNum (Finite 7), stroke := JUndefined\<rparr> = no_properties"
    by (simp add: no_properties_def)
  from initial_stroke_filter [OF 1, of two_states plain_externals True] 3 4
  have "construct plain_externals two_states (no_properties\<lparr>stroke := JNum (Finite 7)\<rparr>) True =
        construct plain_externals two_states (no_properties\<lparr>stroke := JNum (Finite 7), stroke := JUndefined\<rparr>) True"
    by blast
  then have a: "construct plain_externals two_states (no_properties\<lparr>stroke := JNum (Finite 7)\<rparr>) True = Inr paused_player"
    using paused_player_constructed by (simp only: u)
  have b: "\<not> truthy (stroke (p_initialProperties paused_player))"
    by (simp add: paused_player_def no_properties_def)
  have 5: "marker_list legacy_icon = [\<lparr>cm = ''hover'', tm = 0, dr = 0\<rparr>]"
    by (simp add: marker_list_def legacy_icon_def)
  then have 6: "\<forall>c \<in> set (marker_list legacy_icon). dr c \<le> 0" by simp
  from initial_stroke_filter [OF 1, of legacy_icon legacy_externals False] 6
    legacy_icon_constructed
  have c: "\<exists>p. construct legacy_externals legacy_icon (no_properties\<lparr>stroke := JNum (Finite 7)\<rparr>) False = Inr p \<and>
        stroke (p_initialProperties p) = JNum (Finite 7) \<and>
        legacySteps legacy_externals
          (extractLottieProperties legacy_externals (tree legacy_icon) False)
          (no_properties\<lparr>stroke := JNum (Finite 7)\<rparr>) (tree legacy_icon) = Inr (p_iconData p) \<and>
        p_iconData p = JObj [(''width'', JNum (Finite 7))]"
    by simp
  from 1 2 4 a b 5 c show ?thesis by simp
qed

text \<open>
  The claim as stated fails on a legacy document: the stroke 7 is outside the vocabulary, it is
  kept, and the document's stroke slider, of original value 50, is written with
  \<open>7 * (50 / 50)\<close>.
\<close>

theorem legacy_stroke_counterexample:
  "JNum (Finite 7) \<notin> set supported_strokes \<and>
   construct legacy_externals \<lparr>markers = None, tree = JObj [(''width'', JNum (Finite 50))]\<rparr>
     (no_properties\<lparr>stroke := JNum (Finite 7)\<rparr>) False =
   Inr \<lparr>p_iconData = JObj [(''width'', JNum (Finite 7))],
        p_initialProperties = no_properties\<lparr>stroke := JNum (Finite 7)\<rparr>,
        p_lottieInstance = None, p_ready = False, p_direction = 1, p_speed = 1,
        p_lottieProperties = None, p_state = None, p_availableStates = []\<rparr>"
  by (simp add: supported_strokes_def construct_def marker_list_def no_properties_def
      modernIcon_def legacyIcon_def legacySteps_def legacyState_def legacyStroke_def
      legacyScale_def legacyAxis_def legacy_externals_def
      plain_externals_def example_runtime_def set_path_def scaled_def Let_def)

section \<open>Initialization\<close>

text \<open>
  C9. \<open>init()\<close> on a player that holds a renderer instance fails with the error
  \<open>Already connected player!\<close>. The check is the first statement of the method, before the
  renderer is asked to load, so the player keeps the instance it has; a player has one field
  for its instance, so it never holds two.
\<close>

theorem init_already_connected:
  "p_lottieInstance p \<noteq> None \<Longrightarrow> init ext p = Inl AlreadyConnected"
  by (simp add: init_def)

theorem init_already_connected_witness:
  "p_lottieInstance paused_player \<noteq> None \<and>
   init plain_externals paused_player = Inl AlreadyConnected"
  using init_already_connected [of paused_player plain_externals]
  by (simp add: paused_player_def)

section \<open>The frame setter\<close>

text \<open>
  C10, as amended. On a player with an instance, assigning a number \<open>v\<close> to \<open>frame\<close>
  seeks to \<open>Math.max(0, Math.min(frameCount, v))\<close>, where \<open>frameCount\<close> is the renderer's
  duration in frames less one; the playhead stops there. That target is NaN when \<open>v\<close> or
  \<open>frameCount\<close> is NaN, and otherwise it is not negative. When \<open>frameCount\<close> is not
  negative the target equals \<open>Math.min(frameCount, Math.max(0, v))\<close>, and unless one of the
  two is NaN it does not exceed \<open>frameCount\<close>; when \<open>frameCount\<close> is negative the target
  is 0 for every \<open>v\<close> but NaN. The method \<open>seek(v)\<close> goes to \<open>v\<close> itself.
\<close>

theorem frame_setter_clamps:
  assumes "p_lottieInstance p = Some r"
    and "frameCount = num_minus (totalFrames r) (Finite 1)"
    and "target = Math_max (Finite 0) (Math_min frameCount v)"
  shows "get_frameCount p = Inr frameCount \<and>
         set_frame v p = seek target p \<and>
         (\<exists>p' r'. set_frame v p = Inr p' \<and> p_lottieInstance p' = Some r' \<and>
                  currentFrame r' = target \<and> isPaused r') \<and>
         (\<exists>p' r'. seek v p = Inr p' \<and> p_lottieInstance p' = Some r' \<and> currentFrame r' = v) \<and>
         (v = NaN \<or> frameCount = NaN \<longrightarrow> target = NaN) \<and>
         (v \<noteq> NaN \<and> frameCount \<noteq> NaN \<longrightarrow> \<not> num_less target (Finite 0)) \<and>
         (\<not> num_less frameCount (Finite 0) \<longrightarrow>
            target = Math_min frameCount (Math_max (Finite 0) v)) \<and>
         (v \<noteq> NaN \<and> frameCount \<noteq> NaN \<and> \<not> num_less frameCount (Finite 0) \<longrightarrow>
            \<not> num_less frameCount target) \<and>
         (v \<noteq> NaN \<and> num_less frameCount (Finite 0) \<longrightarrow> target = Finite 0)"
proof -
  have setter: "get_frameCount p = Inr frameCount \<and> set_frame v p = seek target p \<and>
         (\<exists>p' r'. set_frame v p = Inr p' \<and> p_lottieInstance p' = Some r' \<and>
                  currentFrame r' = target \<and> isPaused r') \<and>
         (\<exists>p' r'. seek v p = Inr p' \<and> p_lottieInstance p' = Some r' \<and> currentFrame r' = v)"
    using assms
    by (simp add: get_frameCount_def set_frame_def seek_def inst_getDuration_frames_def
        inst_goToAndStop_def inst_pause_def)
  have clamp: "(v = NaN \<or> frameCount = NaN \<longrightarrow> target = NaN) \<and>
         (v \<noteq> NaN \<and> frameCount \<noteq> NaN \<longrightarrow> \<not> num_less target (Finite 0)) \<and>
         (\<not> num_less frameCount (Finite 0) \<longrightarrow>
            target = Math_min frameCount (Math_max (Finite 0) v)) \<and>
         (v \<noteq> NaN \<and> frameCount \<noteq> NaN \<and> \<not> num_less frameCount (Finite 0) \<longrightarrow>
            \<not> num_less frameCount target) \<and>
         (v \<noteq> NaN \<and> num_less frameCount (Finite 0) \<longrightarrow> target = Finite 0)"
    unfolding assms(3)
    by (cases v; cases frameCount) (auto simp: Math_max_def Math_min_def)
  from setter clamp show ?thesis by blast
qed

theorem frame_setter_clamps_witness:
  "p_lottieInstance paused_player =
     Some \<lparr>isLoaded = True, isPaused = True, currentFrame = Finite 0,
           firstFrame = Finite 0, totalFrames = Finite 61, playDirection = 1,
           ip = Finite 0, op = Finite 121\<rparr> \<and>
   get_frameCount paused_player = Inr (Finite 60) \<and>
   set_frame (Finite 75) paused_player = seek (Finite 60) paused_player \<and>
   set_frame (Finite (- 3)) paused_player = seek (Finite 0) paused_player \<and>
   set_frame NaN paused_player = seek NaN paused_player \<and>
   get_frameCount no_frames_player = Inr (Finite (- 1)) \<and>
   set_frame (Finite 5) no_frames_player = seek (Finite 0) no_frames_player"
proof -
  let ?full = "\<lparr>isLoaded = True, isPaused = True, currentFrame = Finite 0,
           firstFrame = Finite 0, totalFrames = Finite 61, playDirection = 1,
           ip = Finite 0, op = Finite 121\<rparr>"
  let ?none = "\<lparr>isLoaded = True, isPaused = True, currentFrame = Finite 0,
           firstFrame = Finite 0, totalFrames = Finite 0, playDirection = 1,
           ip = Finite 0, op = Finite 0\<rparr>"
  have i: "p_lottieInstance paused_player = Some ?full" by (simp add: paused_player_def)
  have i0: "p_lottieInstance no_frames_player = Some ?none" by (simp add: no_frames_player_def)
  have fc: "Finite 60 = num_minus (totalFrames ?full) (Finite 1)" by (simp add: num_minus_def)
  have fc0: "Finite (- 1) = num_minus (totalFrames ?none) (Finite 1)" by (simp add: num_minus_def)
  have t1: "Finite 60 = Math_max (Finite 0) (Math_min (Finite 60) (Finite 75))"
    and t2: "Finite 0 = Math_max (Finite 0) (Math_min (Finite 60) (Finite (- 3)))"
    and t3: "NaN = Math_max (Finite 0) (Math_min (Finite 60) NaN)"
    and t4: "Finite 0 = Math_max (Finite 0) (Math_min (Finite (- 1)) (Finite 5))"
    by (simp_all add: Math_max_def Math_min_def)
  from frame_setter_clamps [OF i fc t1] frame_setter_clamps [OF i fc t2]
    frame_setter_clamps [OF i fc t3] frame_setter_clamps [OF i0 fc0 t4] i
  show ?thesis by simp
qed

text \<open>
  The claim as stated fails when the animation has no frame: \<open>frameCount\<close> is \<open>-1\<close>,
  and assigning 5 seeks to 0, not to \<open>min(-1, max(0, 5)) = -1\<close>.
\<close>

theorem frame_clamp_counterexample:
  "get_frameCount no_frames_player = Inr (Finite (- 1)) \<and>
   set_frame (Finite 5) no_frames_player = seek (Finite 0) no_frames_player \<and>
   seek (Finite 0) no_frames_player \<noteq>
     seek (Math_min (Finite (- 1)) (Math_max (Finite 0) (Finite 5))) no_frames_player"
  by (simp add: get_frameCount_def set_frame_def seek_def no_frames_player_def
      inst_getDuration_frames_def inst_goToAndStop_def inst_pause_def
      Math_max_def Math_min_def num_minus_def)

section \<open>The state setter\<close>

lemma switchSegment_fields:
  "p_lottieInstance p \<noteq> None \<Longrightarrow>
   \<exists>p'. switchSegment seg p = Inr p' \<and> p_state p' = p_state p \<and>
        p_availableStates p' = p_availableStates p \<and> p_lottieInstance p' \<noteq> None \<and>
        get_playing p' = Inr False"
  by (auto simp: switchSegment_def get_playing_def inst_goToAndStop_def inst_pause_def)

lemma pause_play_fields:
  "p_lottieInstance p \<noteq> None \<Longrightarrow>
   \<exists>p' p''. pause p = Inr p' \<and> play p' = Inr p'' \<and> p_state p'' = p_state p \<and>
        p_availableStates p'' = p_availableStates p \<and> get_playing p'' = Inr True"
  by (auto simp: pause_def play_def get_playing_def inst_play_def inst_pause_def
      inst_setDirection_def)

lemma set_state_selects:
  assumes i: "p_lottieInstance p \<noteq> None"
    and d: "\<not> (st \<noteq> None \<and> st = get_state p)"
  shows "\<exists>p'. set_state st p = Inr p' \<and> p_state p' = resolve_state (p_availableStates p) st
           \<and> p_availableStates p' = p_availableStates p"
proof -
  obtain r where r: "p_lottieInstance p = Some r" using i by auto
  define sel where "sel = resolve_state (p_availableStates p) st"
  have "p_lottieInstance (p\<lparr>p_state := sel\<rparr>) \<noteq> None" using i by simp
  from switchSegment_fields [OF this, of "map_option segment_of sel"]
  obtain q where q: "switchSegment (map_option segment_of sel) (p\<lparr>p_state := sel\<rparr>) = Inr q"
    and qs: "p_state q = sel" and qa: "p_availableStates q = p_availableStates p"
    and qi: "p_lottieInstance q \<noteq> None"
    by auto
  from pause_play_fields [OF qi] obtain q' q'' where
    pp: "pause q = Inr q'" "play q' = Inr q''" "p_state q'' = p_state q"
      "p_availableStates q'' = p_availableStates q"
    by blast
  show ?thesis
    using r d q qs qa pp
    by (cases "isPaused r") (auto simp: set_state_def get_playing_def Let_def sel_def [symmetric])
qed

text \<open>
  C4, as amended. On a player with an instance, for every requested name that is not empty,
  is not the name the getter \<open>state\<close> reads, and is the name of no catalog entry: the setter
  succeeds and selects the first catalog entry flagged default; when no entry is flagged
  default, no state is selected and \<open>state\<close> reads empty.
\<close>

theorem unknown_state_falls_back:
  assumes "p_lottieInstance p \<noteq> None"
    and "s \<noteq> []"
    and "get_state p \<noteq> Some s"
    and "[c \<leftarrow> p_availableStates p. name c = Some s] = []"
  shows "\<exists>p'. set_state (Some s) p = Inr p' \<and>
           p_state p' = at0 [c \<leftarrow> p_availableStates p. default c] \<and>
           ([c \<leftarrow> p_availableStates p. default c] = [] \<longrightarrow>
              p_state p' = None \<and> get_state p' = Some [])"
proof -
  have "\<not> (Some s \<noteq> None \<and> Some s = get_state p)" using assms(3) by auto
  from set_state_selects [OF assms(1) this] obtain p' where
    p': "set_state (Some s) p = Inr p'"
      "p_state p' = resolve_state (p_availableStates p) (Some s)"
    by blast
  have "resolve_state (p_availableStates p) (Some s) = at0 [c \<leftarrow> p_availableStates p. default c]"
    using assms(2,4) by (simp add: resolve_state_def)
  with p' show ?thesis by (auto simp: get_state_def)
qed

theorem unknown_state_falls_back_witness:
  "p_lottieInstance paused_player \<noteq> None \<and> ''morph'' \<noteq> [] \<and>
   get_state paused_player \<noteq> Some ''morph'' \<and>
   [c \<leftarrow> p_availableStates paused_player. name c = Some ''morph''] = [] \<and>
   (\<exists>p'. set_state (Some ''morph'') paused_player = Inr p' \<and> p_state p' = Some in_reveal) \<and>
   p_lottieInstance no_default_player \<noteq> None \<and>
   get_state no_default_player \<noteq> Some ''morph'' \<and>
   [c \<leftarrow> p_availableStates no_default_player. name c = Some ''morph''] = [] \<and>
   [c \<leftarrow> p_availableStates no_default_player. default c] = [] \<and>
   (\<exists>p'. set_state (Some ''morph'') no_default_player = Inr p' \<and> p_state p' = None \<and>
         get_state p' = Some [])"
proof -
  have a: "p_lottieInstance paused_player \<noteq> None" "''morph'' \<noteq> []"
    "get_state paused_player \<noteq> Some ''morph''"
    "[c \<leftarrow> p_availableStates paused_player. name c = Some ''morph''] = []"
    by (simp_all add: paused_player_def in_reveal_def hover_jump_def get_state_def)
  have d: "at0 [c \<leftarrow> p_availableStates paused_player. default c] = Some in_reveal"
    by (simp add: paused_player_def in_reveal_def hover_jump_def)
  have b: "p_lottieInstance no_default_player \<noteq> None"
    "get_state no_default_player \<noteq> Some ''morph''"
    "[c \<leftarrow> p_availableStates no_default_player. name c = Some ''morph''] = []"
    "[c \<leftarrow> p_availableStates no_default_player. default c] = []"
    by (simp_all add: no_default_player_def hover_jump_def get_state_def)
  from unknown_state_falls_back [OF a] d
  have 1: "\<exists>p'. set_state (Some ''morph'') paused_player = Inr p' \<and> p_state p' = Some in_reveal"
    by auto
  from unknown_state_falls_back [OF b(1) a(2) b(2,3)] b(4)
  have 2: "\<exists>p'. set_state (Some ''morph'') no_default_player = Inr p' \<and> p_state p' = None \<and>
         get_state p' = Some []"
    by auto
  from a b 1 2 show ?thesis by simp
qed

text \<open>
  The claim as stated fails on the empty name: it is the name of no catalog entry, an entry
  is flagged default, and the setter, whose lookup is guarded by \<open>else if (state)\<close>, selects
  no state.
\<close>

theorem empty_name_counterexample:
  "[c \<leftarrow> p_availableStates paused_player. name c = Some ''''] = [] \<and>
   at0 [c \<leftarrow> p_availableStates paused_player. default c] = Some in_reveal \<and>
   set_state (Some '''') paused_player =
     Inr (paused_player\<lparr>p_state := None,
            p_lottieInstance := Some \<lparr>isLoaded = True, isPaused = True, currentFrame = Finite 0,
               firstFrame = Finite 0, totalFrames = Finite 121, playDirection = 1,
               ip = Finite 0, op = Finite 121\<rparr>\<rparr>) \<and>
   get_state (paused_player\<lparr>p_state := None,
            p_lottieInstance := Some \<lparr>isLoaded = True, isPaused = True, currentFrame = Finite 0,
               firstFrame = Finite 0, totalFrames = Finite 121, playDirection = 1,
               ip = Finite 0, op = Finite 121\<rparr>\<rparr>) = Some ''''"
  by (simp add: paused_player_def in_reveal_def hover_jump_def set_state_def get_state_def
      get_playing_def resolve_state_def switchSegment_def inst_goToAndStop_def inst_pause_def
      inst_resetSegments_def num_minus_def)

text \<open>
  C5. On a player with an instance that is playing, for every request that is not the
  current state's name and resolves to a state \<open>s\<close>: the setter switches to the segment of
  \<open>s\<close>, which stops the renderer at the segment's first frame, then pauses and plays. After
  it the player is playing, the frame is 0 of the segment
  \<open>[s.time, s.time + s.duration + 1]\<close>, and \<open>s\<close> is the selected state.
\<close>

theorem switch_state_while_playing:
  assumes "get_playing p = Inr True"
    and "\<not> (st \<noteq> None \<and> st = get_state p)"
    and "resolve_state (p_availableStates p) st = Some s"
  shows "\<exists>q q' p'. switchSegment (Some (segment_of s)) (p\<lparr>p_state := Some s\<rparr>) = Inr q \<and>
           pause q = Inr q' \<and> play q' = Inr p' \<and> set_state st p = Inr p' \<and>
           get_playing q = Inr False \<and>
           get_playing p' = Inr True \<and> get_frame p' = Inr (Finite 0) \<and>
           get_segment p' = Inr (Finite (time s), Finite (time s + duration s + 1)) \<and>
           p_state p' = Some s"
proof -
  from assms(1) obtain r where r: "p_lottieInstance p = Some r" "\<not> isPaused r"
    by (auto simp: get_playing_def split: option.splits)
  show ?thesis
  proof (cases st)
    case None
    with r assms(3) show ?thesis
      by (simp add: set_state_def get_playing_def get_frame_def get_segment_def
          switchSegment_def pause_def play_def segment_of_def inst_goToAndStop_def
          inst_pause_def inst_play_def inst_setSegment_def inst_setDirection_def
          num_minus_def)
  next
    case (Some requested)
    with assms(2) have "get_state p \<noteq> Some requested" by auto
    with Some r assms(3) show ?thesis
      by (simp add: set_state_def get_playing_def get_frame_def get_segment_def
          switchSegment_def pause_def play_def segment_of_def inst_goToAndStop_def
          inst_pause_def inst_play_def inst_setSegment_def inst_setDirection_def
          num_minus_def)
  qed
qed

theorem switch_state_while_playing_witness:
  "get_playing playing_player = Inr True \<and>
   get_state playing_player = Some ''in-reveal'' \<and>
   resolve_state (p_availableStates playing_player) (Some ''hover-jump'') = Some hover_jump \<and>
   (\<exists>p'. set_state (Some ''hover-jump'') playing_player = Inr p' \<and>
         get_playing p' = Inr True \<and> get_frame p' = Inr (Finite 0) \<and>
         get_segment p' = Inr (Finite 70, Finite 121) \<and> p_state p' = Some hover_jump)"
proof -
  have 1: "get_playing playing_player = Inr True"
    by (simp add: playing_player_def get_playing_def)
  have 2: "get_state playing_player = Some ''in-reveal''"
    by (simp add: playing_player_def paused_player_def in_reveal_def get_state_def)
  then have 3: "\<not> (Some ''hover-jump'' \<noteq> None \<and> Some ''hover-jump'' = get_state playing_player)"
    by simp
  have 4: "resolve_state (p_availableStates playing_player) (Some ''hover-jump'') = Some hover_jump"
    by (simp add: playing_player_def paused_player_def in_reveal_def hover_jump_def
        resolve_state_def)
  from switch_state_while_playing [OF 1 3 4] obtain p' where
    "set_state (Some ''hover-jump'') playing_player = Inr p'"
    "get_playing p' = Inr True" "get_frame p' = Inr (Finite 0)"
    "get_segment p' = Inr (Finite (time hover_jump),
       Finite (time hover_jump + duration hover_jump + 1))"
    "p_state p' = Some hover_jump"
    by blast
  then have "\<exists>p'. set_state (Some ''hover-jump'') playing_player = Inr p' \<and>
         get_playing p' = Inr True \<and> get_frame p' = Inr (Finite 0) \<and>
         get_segment p' = Inr (Finite 70, Finite 121) \<and> p_state p' = Some hover_jump"
    by (simp add: hover_jump_def)
  with 1 2 4 show ?thesis by simp
qed

end
